theory Spec2Isabelle
  imports Complex_Main "HOL-Library.Sublist" "HOL-Library.Char_ord" "HOL-Library.List_Lexorder"
begin

section \<open>Values, strings and the Python runtime\<close>

text \<open>
  The development embeds the data pipeline of \<^verbatim>\<open>utilities.py\<close>:
  \<^verbatim>\<open>detect_excel_structure\<close>, \<^verbatim>\<open>analyze_excel_data\<close>,
  \<^verbatim>\<open>classify_transactions\<close>, \<^verbatim>\<open>generate_ai_insights\<close> and
  \<^verbatim>\<open>generate_financial_predictions\<close>.

  Conventions of the embedding.
  \<^item> A Python \<^verbatim>\<open>str\<close> is the list of its UTF-8 bytes. Substring tests and the
    code-point order of Python agree with substring tests and the byte order on
    UTF-8, so \<^verbatim>\<open>in\<close>, \<^verbatim>\<open>==\<close>, \<^verbatim>\<open>startswith\<close> and sorting are the
    same on both. Arabic literals of the source appear as their bytes.
  \<^item> Python floats are real numbers: rounding, infinities and NaN results of
    float arithmetic are not modelled. A missing number is the cell \<open>NaN\<close>.
  \<^item> A pandas timestamp is a calendar date with a time of day; calendar months
    are counted without an upper bound.
  \<^item> What the libraries decide (Unicode lower-casing, parsing text as a number
    or as a date, printing a number) is a parameter of the model, the record
    \<open>pylib\<close>; the wall clock is a parameter \<open>now\<close>. Every theorem that
    mentions \<open>L\<close> holds for every such library.
\<close>

record timestamp =
  ts_year :: int
  ts_month :: int
  ts_day :: int
  ts_time :: int

datatype cell =
    Text string
  | Num real
  | Stamp timestamp
  | NaN
  | NaT
  | PyNone

datatype error = KeyError string | ValueError

record pylib =
  str_lower :: "string \<Rightarrow> string"
  num_parse :: "cell \<Rightarrow> real option"
  date_parse :: "cell \<Rightarrow> timestamp option"
  cell_repr :: "cell \<Rightarrow> string"
  fmt_2f :: "real \<Rightarrow> string"

text \<open>\<^verbatim>\<open>kw in s\<close> on strings: \<open>kw\<close> occurs in \<open>s\<close> as a contiguous block.\<close>

fun contains :: "string \<Rightarrow> string \<Rightarrow> bool" where
  "contains [] kw = (kw = [])"
| "contains (c # s) kw = (prefix kw (c # s) \<or> contains s kw)"

text \<open>\<^verbatim>\<open>s.startswith(p)\<close>.\<close>

definition startswith :: "string \<Rightarrow> string \<Rightarrow> bool" where
  "startswith s p = prefix p s"

text \<open>\<^verbatim>\<open>pd.isna\<close> / \<^verbatim>\<open>pd.notna\<close> on a scalar.\<close>

fun isna :: "cell \<Rightarrow> bool" where
  "isna NaN = True"
| "isna NaT = True"
| "isna PyNone = True"
| "isna _ = False"

text \<open>\<^verbatim>\<open>str(x)\<close>, which is also what \<^verbatim>\<open>astype(str)\<close> applies to each element of
  an object column: text is kept, \<^verbatim>\<open>None\<close> prints as \<^verbatim>\<open>None\<close>, a missing float
  as \<^verbatim>\<open>nan\<close>, a missing timestamp as \<^verbatim>\<open>NaT\<close>; numbers and timestamps are
  printed by the library.\<close>

fun py_str :: "pylib \<Rightarrow> cell \<Rightarrow> string" where
  "py_str L (Text s) = s"
| "py_str L NaN = ''nan''"
| "py_str L NaT = ''NaT''"
| "py_str L PyNone = ''None''"
| "py_str L c = cell_repr L c"

text \<open>One element of \<^verbatim>\<open>pd.to_numeric(col, errors='coerce')\<close>; \<open>None\<close> is NaN.\<close>

fun to_numeric :: "pylib \<Rightarrow> cell \<Rightarrow> real option" where
  "to_numeric L (Num x) = Some x"
| "to_numeric L NaN = None"
| "to_numeric L NaT = None"
| "to_numeric L PyNone = None"
| "to_numeric L c = num_parse L c"

text \<open>One element of \<^verbatim>\<open>pd.to_datetime(col, errors='coerce')\<close>, as a cell: a
  timestamp or NaT.\<close>

fun to_datetime :: "pylib \<Rightarrow> cell \<Rightarrow> cell" where
  "to_datetime L (Stamp t) = Stamp t"
| "to_datetime L NaN = NaT"
| "to_datetime L NaT = NaT"
| "to_datetime L PyNone = NaT"
| "to_datetime L c = (case date_parse L c of None \<Rightarrow> NaT | Some t \<Rightarrow> Stamp t)"

section \<open>Structure detector\<close>

definition date_columns :: "string list" where
  "date_columns =
    [''Date'',
     ''Transaction Date'',
     [CHR 0xD8, CHR 0xAA, CHR 0xD8, CHR 0xA7, CHR 0xD8, CHR 0xB1, CHR 0xD9, CHR 0x8A, CHR 0xD8,
       CHR 0xAE],
     [CHR 0xD8, CHR 0xAA, CHR 0xD8, CHR 0xA7, CHR 0xD8, CHR 0xB1, CHR 0xD9, CHR 0x8A, CHR 0xD8,
       CHR 0xAE] @ '' '' @ [CHR 0xD8, CHR 0xA7, CHR 0xD9, CHR 0x84, CHR 0xD9, CHR 0x85, CHR 0xD8,
       CHR 0xB9, CHR 0xD8, CHR 0xA7, CHR 0xD9, CHR 0x85, CHR 0xD9, CHR 0x84, CHR 0xD8, CHR 0xA9],
     [CHR 0xD8, CHR 0xA7, CHR 0xD9, CHR 0x84, CHR 0xD8, CHR 0xAA, CHR 0xD8, CHR 0xA7, CHR 0xD8,
       CHR 0xB1, CHR 0xD9, CHR 0x8A, CHR 0xD8, CHR 0xAE],
     ''date'',
     ''datetime'',
     ''time'']"

definition description_columns :: "string list" where
  "description_columns =
    [''Description'',
     ''Transaction Details'',
     [CHR 0xD9, CHR 0x88, CHR 0xD8, CHR 0xB5, CHR 0xD9, CHR 0x81],
     [CHR 0xD8, CHR 0xAA, CHR 0xD9, CHR 0x81, CHR 0xD8, CHR 0xA7, CHR 0xD8, CHR 0xB5, CHR 0xD9,
       CHR 0x8A, CHR 0xD9, CHR 0x84] @ '' '' @ [CHR 0xD8, CHR 0xA7, CHR 0xD9, CHR 0x84, CHR 0xD9,
       CHR 0x85, CHR 0xD8, CHR 0xB9, CHR 0xD8, CHR 0xA7, CHR 0xD9, CHR 0x85, CHR 0xD9, CHR 0x84,
       CHR 0xD8, CHR 0xA9],
     [CHR 0xD8, CHR 0xA7, CHR 0xD9, CHR 0x84, CHR 0xD9, CHR 0x88, CHR 0xD8, CHR 0xB5, CHR 0xD9,
       CHR 0x81],
     [CHR 0xD8, CHR 0xA7, CHR 0xD9, CHR 0x84, CHR 0xD8, CHR 0xA8, CHR 0xD9, CHR 0x8A, CHR 0xD8,
       CHR 0xA7, CHR 0xD9, CHR 0x86],
     [CHR 0xD8, CHR 0xA7, CHR 0xD9, CHR 0x84, CHR 0xD8, CHR 0xAA, CHR 0xD9, CHR 0x81, CHR 0xD8,
       CHR 0xA7, CHR 0xD8, CHR 0xB5, CHR 0xD9, CHR 0x8A, CHR 0xD9, CHR 0x84],
     ''desc'',
     ''details'']"

definition category_columns :: "string list" where
  "category_columns =
    [''Category'',
     ''Type'',
     [CHR 0xD9, CHR 0x81, CHR 0xD8, CHR 0xA6, CHR 0xD8, CHR 0xA9],
     [CHR 0xD8, CHR 0xAA, CHR 0xD8, CHR 0xB5, CHR 0xD9, CHR 0x86, CHR 0xD9, CHR 0x8A, CHR 0xD9,
       CHR 0x81],
     [CHR 0xD9, CHR 0x86, CHR 0xD9, CHR 0x88, CHR 0xD8, CHR 0xB9],
     ''cat'',
     ''group'',
     [CHR 0xD9, CHR 0x85, CHR 0xD8, CHR 0xAC, CHR 0xD9, CHR 0x85, CHR 0xD9, CHR 0x88, CHR 0xD8,
       CHR 0xB9, CHR 0xD8, CHR 0xA9],
     [CHR 0xD8, CHR 0xA7, CHR 0xD9, CHR 0x84, CHR 0xD9, CHR 0x86, CHR 0xD9, CHR 0x88, CHR 0xD8,
       CHR 0xB9] ]"

definition income_columns :: "string list" where
  "income_columns =
    [''Income'',
     ''Credit'',
     [CHR 0xD8, CHR 0xAF, CHR 0xD8, CHR 0xAE, CHR 0xD9, CHR 0x84],
     [CHR 0xD8, CHR 0xA5, CHR 0xD9, CHR 0x8A, CHR 0xD8, CHR 0xB1, CHR 0xD8, CHR 0xA7, CHR 0xD8,
       CHR 0xAF, CHR 0xD8, CHR 0xA7, CHR 0xD8, CHR 0xAA],
     [CHR 0xD8, CHR 0xA7, CHR 0xD9, CHR 0x8A, CHR 0xD8, CHR 0xB1, CHR 0xD8, CHR 0xA7, CHR 0xD8,
       CHR 0xAF, CHR 0xD8, CHR 0xA7, CHR 0xD8, CHR 0xAA],
     [CHR 0xD9, CHR 0x85, CHR 0xD8, CHR 0xAF, CHR 0xD9, CHR 0x8A, CHR 0xD9, CHR 0x86],
     ''credit'',
     ''in'',
     ''revenue'',
     [CHR 0xD8, CHR 0xAF, CHR 0xD8, CHR 0xA7, CHR 0xD8, CHR 0xA6, CHR 0xD9, CHR 0x86],
     [CHR 0xD8, CHR 0xAF, CHR 0xD8, CHR 0xAE, CHR 0xD9, CHR 0x84] ]"

definition expense_columns :: "string list" where
  "expense_columns =
    [''Expense'',
     ''Expenses'',
     ''Debit'',
     [CHR 0xD9, CHR 0x85, CHR 0xD8, CHR 0xB5, CHR 0xD8, CHR 0xB1, CHR 0xD9, CHR 0x88, CHR 0xD9,
       CHR 0x81, CHR 0xD8, CHR 0xA7, CHR 0xD8, CHR 0xAA],
     [CHR 0xD9, CHR 0x85, CHR 0xD8, CHR 0xB5, CHR 0xD8, CHR 0xA7, CHR 0xD8, CHR 0xB1, CHR 0xD9,
       CHR 0x8A, CHR 0xD9, CHR 0x81],
     [CHR 0xD8, CHR 0xAF, CHR 0xD8, CHR 0xA7, CHR 0xD8, CHR 0xA6, CHR 0xD9, CHR 0x86],
     ''debit'',
     ''out'',
     [CHR 0xD9, CHR 0x85, CHR 0xD8, CHR 0xB5, CHR 0xD8, CHR 0xB1, CHR 0xD9, CHR 0x81],
     [CHR 0xD9, CHR 0x85, CHR 0xD8, CHR 0xB5, CHR 0xD8, CHR 0xB1, CHR 0xD9, CHR 0x88, CHR 0xD9,
       CHR 0x81],
     [CHR 0xD8, CHR 0xAE, CHR 0xD8, CHR 0xB5, CHR 0xD9, CHR 0x85] ]"


text \<open>\<^verbatim>\<open>any(k.lower() in col_str for k in keywords)\<close>.\<close>

definition matches :: "pylib \<Rightarrow> string list \<Rightarrow> string \<Rightarrow> bool" where
  "matches L keywords col_str = list_ex (\<lambda>k. contains col_str (str_lower L k)) keywords"

text \<open>The body of the loop over \<^verbatim>\<open>df.columns\<close>: an \<^verbatim>\<open>if\<close>/\<^verbatim>\<open>elif\<close> chain, so at
  most one canonical field is assigned for each header.\<close>

definition detect_step :: "pylib \<Rightarrow> (string \<rightharpoonup> string) \<Rightarrow> string \<Rightarrow> (string \<rightharpoonup> string)" where
  "detect_step L column_mapping col =
     (let col_str = str_lower L col in
      if matches L date_columns col_str \<and> column_mapping ''Date'' = None
        then column_mapping(''Date'' \<mapsto> col)
      else if matches L description_columns col_str \<and> column_mapping ''Description'' = None
        then column_mapping(''Description'' \<mapsto> col)
      else if matches L category_columns col_str \<and> column_mapping ''Category'' = None
        then column_mapping(''Category'' \<mapsto> col)
      else if matches L income_columns col_str \<and> column_mapping ''Income'' = None
        then column_mapping(''Income'' \<mapsto> col)
      else if matches L expense_columns col_str \<and> column_mapping ''Expenses'' = None
        then column_mapping(''Expenses'' \<mapsto> col)
      else column_mapping)"

text \<open>\<^verbatim>\<open>detect_excel_structure(df)\<close> reads only \<^verbatim>\<open>df.columns\<close>, here the list of
  header strings in their order.\<close>

definition detect_excel_structure :: "pylib \<Rightarrow> string list \<Rightarrow> (string \<rightharpoonup> string)" where
  "detect_excel_structure L headers = foldl (detect_step L) Map.empty headers"

definition canonical_fields :: "string set" where
  "canonical_fields = {''Date'', ''Description'', ''Category'', ''Income'', ''Expenses''}"

section \<open>Classifier\<close>

definition category_keywords :: "(string \<times> string list) list" where
  "category_keywords =
    [([CHR 0xD8, CHR 0xB1, CHR 0xD9, CHR 0x88, CHR 0xD8, CHR 0xA7, CHR 0xD8, CHR 0xAA, CHR 0xD8,
      CHR 0xA8],
      [ [CHR 0xD8, CHR 0xB1, CHR 0xD8, CHR 0xA7, CHR 0xD8, CHR 0xAA, CHR 0xD8, CHR 0xA8],
       [CHR 0xD9, CHR 0x85, CHR 0xD8, CHR 0xB9, CHR 0xD8, CHR 0xA7, CHR 0xD8, CHR 0xB4],
       [CHR 0xD8, CHR 0xA3, CHR 0xD8, CHR 0xAC, CHR 0xD8, CHR 0xB1],
       ''salary'',
       ''wage'',
       ''payroll'']),
     ([CHR 0xD8, CHR 0xAA, CHR 0xD8, CHR 0xA8, CHR 0xD8, CHR 0xB1, CHR 0xD8, CHR 0xB9, CHR 0xD8,
       CHR 0xA7, CHR 0xD8, CHR 0xAA],
      [ [CHR 0xD8, CHR 0xAA, CHR 0xD8, CHR 0xA8, CHR 0xD8, CHR 0xB1, CHR 0xD8, CHR 0xB9],
       [CHR 0xD9, CHR 0x87, CHR 0xD8, CHR 0xA8, CHR 0xD8, CHR 0xA9],
       [CHR 0xD8, CHR 0xAF, CHR 0xD8, CHR 0xB9, CHR 0xD9, CHR 0x85],
       ''donation'',
       ''grant'',
       ''support'']),
     ([CHR 0xD8, CHR 0xA7, CHR 0xD8, CHR 0xB3, CHR 0xD8, CHR 0xAA, CHR 0xD8, CHR 0xAB, CHR 0xD9,
       CHR 0x85, CHR 0xD8, CHR 0xA7, CHR 0xD8, CHR 0xB1, CHR 0xD8, CHR 0xA7, CHR 0xD8, CHR 0xAA],
      [ [CHR 0xD8, CHR 0xA3, CHR 0xD8, CHR 0xB1, CHR 0xD8, CHR 0xA8, CHR 0xD8, CHR 0xA7, CHR 0xD8,
        CHR 0xAD],
       [CHR 0xD8, CHR 0xA7, CHR 0xD8, CHR 0xB3, CHR 0xD8, CHR 0xAA, CHR 0xD8, CHR 0xAB, CHR 0xD9,
         CHR 0x85, CHR 0xD8, CHR 0xA7, CHR 0xD8, CHR 0xB1],
       [CHR 0xD8, CHR 0xB9, CHR 0xD8, CHR 0xA7, CHR 0xD8, CHR 0xA6, CHR 0xD8, CHR 0xAF],
       ''dividend'',
       ''investment'',
       ''return'']),
     ([CHR 0xD9, CHR 0x85, CHR 0xD8, CHR 0xA8, CHR 0xD9, CHR 0x8A, CHR 0xD8, CHR 0xB9, CHR 0xD8,
       CHR 0xA7, CHR 0xD8, CHR 0xAA],
      [ [CHR 0xD9, CHR 0x85, CHR 0xD8, CHR 0xA8, CHR 0xD9, CHR 0x8A, CHR 0xD8, CHR 0xB9, CHR 0xD8,
        CHR 0xA7, CHR 0xD8, CHR 0xAA],
       [CHR 0xD8, CHR 0xA8, CHR 0xD9, CHR 0x8A, CHR 0xD8, CHR 0xB9],
       [CHR 0xD8, CHR 0xA5, CHR 0xD9, CHR 0x8A, CHR 0xD8, CHR 0xB1, CHR 0xD8, CHR 0xA7, CHR 0xD8,
         CHR 0xAF],
       ''sales'',
       ''revenue'',
       ''income'']),
     ([CHR 0xD9, CHR 0x85, CHR 0xD8, CHR 0xB5, CHR 0xD8, CHR 0xA7, CHR 0xD8, CHR 0xB1, CHR 0xD9,
       CHR 0x8A, CHR 0xD9, CHR 0x81] @ '' '' @ [CHR 0xD8, CHR 0xAA, CHR 0xD8, CHR 0xB4, CHR 0xD8,
       CHR 0xBA, CHR 0xD9, CHR 0x8A, CHR 0xD9, CHR 0x84, CHR 0xD9, CHR 0x8A, CHR 0xD8, CHR 0xA9],
      [ [CHR 0xD8, CHR 0xAA, CHR 0xD8, CHR 0xB4, CHR 0xD8, CHR 0xBA, CHR 0xD9, CHR 0x8A, CHR 0xD9,
        CHR 0x84],
       [CHR 0xD8, CHR 0xB5, CHR 0xD9, CHR 0x8A, CHR 0xD8, CHR 0xA7, CHR 0xD9, CHR 0x86, CHR 0xD8,
         CHR 0xA9],
       [CHR 0xD8, CHR 0xAE, CHR 0xD8, CHR 0xAF, CHR 0xD9, CHR 0x85, CHR 0xD8, CHR 0xA9],
       ''operation'',
       ''maintenance'',
       ''service'']),
     ([CHR 0xD9, CHR 0x85, CHR 0xD8, CHR 0xB5, CHR 0xD8, CHR 0xA7, CHR 0xD8, CHR 0xB1, CHR 0xD9,
       CHR 0x8A, CHR 0xD9, CHR 0x81] @ '' '' @ [CHR 0xD8, CHR 0xA5, CHR 0xD8, CHR 0xAF, CHR 0xD8,
       CHR 0xA7, CHR 0xD8, CHR 0xB1, CHR 0xD9, CHR 0x8A, CHR 0xD8, CHR 0xA9],
      [ [CHR 0xD8, CHR 0xA5, CHR 0xD8, CHR 0xAF, CHR 0xD8, CHR 0xA7, CHR 0xD8, CHR 0xB1, CHR 0xD8,
        CHR 0xA9],
       [CHR 0xD9, CHR 0x85, CHR 0xD9, CHR 0x83, CHR 0xD8, CHR 0xAA, CHR 0xD8, CHR 0xA8],
       [CHR 0xD8, CHR 0xA5, CHR 0xD9, CHR 0x8A, CHR 0xD8, CHR 0xAC, CHR 0xD8, CHR 0xA7, CHR 0xD8,
         CHR 0xB1],
       ''administration'',
       ''office'',
       ''rent'']),
     ([CHR 0xD9, CHR 0x85, CHR 0xD8, CHR 0xB5, CHR 0xD8, CHR 0xA7, CHR 0xD8, CHR 0xB1, CHR 0xD9,
       CHR 0x8A, CHR 0xD9, CHR 0x81] @ '' '' @ [CHR 0xD8, CHR 0xAA, CHR 0xD8, CHR 0xB3, CHR 0xD9,
       CHR 0x88, CHR 0xD9, CHR 0x8A, CHR 0xD9, CHR 0x82, CHR 0xD9, CHR 0x8A, CHR 0xD8, CHR 0xA9],
      [ [CHR 0xD8, CHR 0xAA, CHR 0xD8, CHR 0xB3, CHR 0xD9, CHR 0x88, CHR 0xD9, CHR 0x8A, CHR 0xD9,
        CHR 0x82],
       [CHR 0xD8, CHR 0xA5, CHR 0xD8, CHR 0xB9, CHR 0xD9, CHR 0x84, CHR 0xD8, CHR 0xA7, CHR 0xD9,
         CHR 0x86],
       [CHR 0xD8, CHR 0xAF, CHR 0xD8, CHR 0xB9, CHR 0xD8, CHR 0xA7, CHR 0xD9, CHR 0x8A, CHR 0xD8,
         CHR 0xA9],
       ''marketing'',
       ''advertising'',
       ''promotion'']),
     ([CHR 0xD9, CHR 0x85, CHR 0xD8, CHR 0xB5, CHR 0xD8, CHR 0xA7, CHR 0xD8, CHR 0xB1, CHR 0xD9,
       CHR 0x8A, CHR 0xD9, CHR 0x81] @ '' '' @ [CHR 0xD8, CHR 0xA7, CHR 0xD9, CHR 0x84, CHR 0xD9,
       CHR 0x85, CHR 0xD9, CHR 0x88, CHR 0xD8, CHR 0xB8, CHR 0xD9, CHR 0x81, CHR 0xD9, CHR 0x8A,
       CHR 0xD9, CHR 0x86],
      [ [CHR 0xD9, CHR 0x85, CHR 0xD9, CHR 0x88, CHR 0xD8, CHR 0xB8, CHR 0xD9, CHR 0x81],
       [CHR 0xD8, CHR 0xAA, CHR 0xD8, CHR 0xA3, CHR 0xD9, CHR 0x85, CHR 0xD9, CHR 0x8A, CHR 0xD9,
         CHR 0x86],
       [CHR 0xD8, CHR 0xAA, CHR 0xD8, CHR 0xAF, CHR 0xD8, CHR 0xB1, CHR 0xD9, CHR 0x8A, CHR 0xD8,
         CHR 0xA8],
       ''employee'',
       ''insurance'',
       ''training'']),
     ([CHR 0xD9, CHR 0x85, CHR 0xD8, CHR 0xB5, CHR 0xD8, CHR 0xA7, CHR 0xD8, CHR 0xB1, CHR 0xD9,
       CHR 0x8A, CHR 0xD9, CHR 0x81] @ '' '' @ [CHR 0xD9, CHR 0x85, CHR 0xD8, CHR 0xA7, CHR 0xD9,
       CHR 0x84, CHR 0xD9, CHR 0x8A, CHR 0xD8, CHR 0xA9],
      [ [CHR 0xD8, CHR 0xA8, CHR 0xD9, CHR 0x86, CHR 0xD9, CHR 0x83],
       [CHR 0xD9, CHR 0x81, CHR 0xD8, CHR 0xA7, CHR 0xD8, CHR 0xA6, CHR 0xD8, CHR 0xAF, CHR 0xD8,
         CHR 0xA9],
       [CHR 0xD8, CHR 0xB1, CHR 0xD8, CHR 0xB3, CHR 0xD9, CHR 0x88, CHR 0xD9, CHR 0x85],
       ''bank'',
       ''interest'',
       ''fees'']),
     ([CHR 0xD9, CHR 0x85, CHR 0xD8, CHR 0xB4, CHR 0xD8, CHR 0xAA, CHR 0xD8, CHR 0xB1, CHR 0xD9,
       CHR 0x8A, CHR 0xD8, CHR 0xA7, CHR 0xD8, CHR 0xAA],
      [ [CHR 0xD8, CHR 0xB4, CHR 0xD8, CHR 0xB1, CHR 0xD8, CHR 0xA7, CHR 0xD8, CHR 0xA1],
       [CHR 0xD9, CHR 0x85, CHR 0xD8, CHR 0xB4, CHR 0xD8, CHR 0xAA, CHR 0xD8, CHR 0xB1, CHR 0xD9,
         CHR 0x8A, CHR 0xD8, CHR 0xA7, CHR 0xD8, CHR 0xAA],
       [CHR 0xD8, CHR 0xA8, CHR 0xD8, CHR 0xB6, CHR 0xD8, CHR 0xA7, CHR 0xD8, CHR 0xB9, CHR 0xD8,
         CHR 0xA9],
       ''purchase'',
       ''goods'',
       ''inventory'']),
     ([CHR 0xD8, CHR 0xB3, CHR 0xD9, CHR 0x81, CHR 0xD8, CHR 0xB1],
      [ [CHR 0xD8, CHR 0xB3, CHR 0xD9, CHR 0x81, CHR 0xD8, CHR 0xB1],
       [CHR 0xD8, CHR 0xAA, CHR 0xD8, CHR 0xB0, CHR 0xD9, CHR 0x83, CHR 0xD8, CHR 0xB1, CHR 0xD8,
         CHR 0xA9],
       [CHR 0xD9, CHR 0x81, CHR 0xD9, CHR 0x86, CHR 0xD8, CHR 0xAF, CHR 0xD9, CHR 0x82],
       ''travel'',
       ''ticket'',
       ''hotel''])]"

text \<open>The prefix of the expense-side category names.\<close>

definition masarif :: string where
  "masarif = [CHR 0xD9, CHR 0x85, CHR 0xD8, CHR 0xB5, CHR 0xD8, CHR 0xA7, CHR 0xD8, CHR 0xB1,
    CHR 0xD9, CHR 0x8A, CHR 0xD9, CHR 0x81]"

text \<open>The category of purchases.\<close>

definition mushtarayat :: string where
  "mushtarayat = [CHR 0xD9, CHR 0x85, CHR 0xD8, CHR 0xB4, CHR 0xD8, CHR 0xAA, CHR 0xD8, CHR 0xB1,
    CHR 0xD9, CHR 0x8A, CHR 0xD8, CHR 0xA7, CHR 0xD8, CHR 0xAA]"

text \<open>The category of travel.\<close>

definition safar :: string where
  "safar = [CHR 0xD8, CHR 0xB3, CHR 0xD9, CHR 0x81, CHR 0xD8, CHR 0xB1]"

text \<open>Default label of an income row.\<close>

definition other_income :: string where
  "other_income = [CHR 0xD8, CHR 0xA5, CHR 0xD9, CHR 0x8A, CHR 0xD8, CHR 0xB1, CHR 0xD8, CHR 0xA7,
    CHR 0xD8, CHR 0xAF, CHR 0xD8, CHR 0xA7, CHR 0xD8, CHR 0xAA] @ '' '' @ [CHR 0xD8, CHR 0xA3,
    CHR 0xD8, CHR 0xAE, CHR 0xD8, CHR 0xB1, CHR 0xD9, CHR 0x89]"

text \<open>Default label of an expense row.\<close>

definition other_expenses :: string where
  "other_expenses = [CHR 0xD9, CHR 0x85, CHR 0xD8, CHR 0xB5, CHR 0xD8, CHR 0xA7, CHR 0xD8,
    CHR 0xB1, CHR 0xD9, CHR 0x8A, CHR 0xD9, CHR 0x81] @ '' '' @ [CHR 0xD8, CHR 0xA3, CHR 0xD8,
    CHR 0xAE, CHR 0xD8, CHR 0xB1, CHR 0xD9, CHR 0x89]"

text \<open>Label of a row that is neither.\<close>

definition uncategorized :: string where
  "uncategorized = [CHR 0xD8, CHR 0xBA, CHR 0xD9, CHR 0x8A, CHR 0xD8, CHR 0xB1] @ '' ''
    @ [CHR 0xD9, CHR 0x85, CHR 0xD8, CHR 0xB5, CHR 0xD9, CHR 0x86, CHR 0xD9, CHR 0x81]"

text \<open>Prefix of a synthesized description.\<close>

definition transaction_prefix :: string where
  "transaction_prefix = [CHR 0xD8, CHR 0xA7, CHR 0xD9, CHR 0x84, CHR 0xD9, CHR 0x85, CHR 0xD8,
    CHR 0xB9, CHR 0xD8, CHR 0xA7, CHR 0xD9, CHR 0x85, CHR 0xD9, CHR 0x84, CHR 0xD8, CHR 0xA9]
    @ '' #''"

text \<open>The row handed to \<^verbatim>\<open>classify_transactions\<close>: each of the three entries it
  reads may be absent (\<^verbatim>\<open>'Income' in row\<close>).\<close>

record series =
  s_description :: "cell option"
  s_income :: "real option"
  s_expenses :: "real option"

text \<open>The loop over \<^verbatim>\<open>category_keywords.items()\<close>, in the order of the table. A
  category whose keyword occurs in the description is returned when it passes the
  test of its side; otherwise the loop goes on with the next category.\<close>

fun scan_categories :: "bool \<Rightarrow> bool \<Rightarrow> string \<Rightarrow> (string \<times> string list) list \<Rightarrow> string option" where
  "scan_categories is_income is_expense description [] = None"
| "scan_categories is_income is_expense description ((category, keywords) # rest) =
     (if list_ex (\<lambda>keyword. contains description keyword) keywords then
        (if is_income \<and> \<not> startswith category masarif \<and> \<not> category = mushtarayat
              \<and> \<not> category = safar
           then Some category
         else if is_expense \<and> (startswith category masarif \<or> category = mushtarayat
              \<or> category = safar)
           then Some category
         else scan_categories is_income is_expense description rest)
      else scan_categories is_income is_expense description rest)"

definition row_is_income :: "series \<Rightarrow> bool" where
  "row_is_income row = (case s_income row of None \<Rightarrow> False | Some x \<Rightarrow> 0 < x)"

definition row_is_expense :: "series \<Rightarrow> bool" where
  "row_is_expense row = (case s_expenses row of None \<Rightarrow> False | Some x \<Rightarrow> 0 < x)"

text \<open>\<^verbatim>\<open>'Description' in row and pd.notna(row['Description']) and row['Description'] != ''\<close>:
  the description that is used, lower-cased, if there is one.\<close>

definition row_description :: "pylib \<Rightarrow> series \<Rightarrow> string option" where
  "row_description L row =
     (case s_description row of
        None \<Rightarrow> None
      | Some d \<Rightarrow> if \<not> isna d \<and> d \<noteq> Text [] then Some (str_lower L (py_str L d)) else None)"

definition default_label :: "bool \<Rightarrow> bool \<Rightarrow> string" where
  "default_label is_income is_expense =
     (if is_income then other_income else if is_expense then other_expenses else uncategorized)"

definition classify_transactions :: "pylib \<Rightarrow> series \<Rightarrow> string" where
  "classify_transactions L row =
     (let is_income = row_is_income row;
          is_expense = row_is_expense row
      in case row_description L row of
           None \<Rightarrow> default_label is_income is_expense
         | Some description \<Rightarrow>
             (case scan_categories is_income is_expense description category_keywords of
                Some category \<Rightarrow> category
              | None \<Rightarrow> default_label is_income is_expense))"


section \<open>Normalizer\<close>

text \<open>The raw table: its header list and its rows, each a dictionary from header to
  cell; a header without an entry in a row reads as NaN.\<close>

record raw_frame =
  raw_columns :: "string list"
  raw_rows :: "(string \<rightharpoonup> cell) list"

text \<open>The canonical table: the columns it has and its rows. The rows are typed as the
  normalizer produces them: Income, Expenses and Net are numbers and Category is a
  string; the Date and the Description are cells.\<close>

record txn =
  Date :: cell
  Description :: cell
  Income :: real
  Expenses :: real
  Category :: string
  Net :: real

record frame =
  columns :: "string list"
  rows :: "txn list"

text \<open>\<^verbatim>\<open>data[c]\<close>: the column, or \<^verbatim>\<open>KeyError\<close>.\<close>

definition column :: "raw_frame \<Rightarrow> string \<Rightarrow> error + cell list" where
  "column df c =
     (if c \<in> set (raw_columns df)
      then Inr (map (\<lambda>r. case r c of None \<Rightarrow> NaN | Some v \<Rightarrow> v) (raw_rows df))
      else Inl (KeyError c))"

text \<open>\<^verbatim>\<open>k in column_mapping and column_mapping[k] is not None\<close>: the column that the
  mapping names for the field \<open>k\<close>. A value of the dictionary may be \<^verbatim>\<open>None\<close>.\<close>

definition mapped :: "(string \<rightharpoonup> string option) \<Rightarrow> string \<Rightarrow> string option" where
  "mapped column_mapping k = (case column_mapping k of Some (Some c) \<Rightarrow> Some c | _ \<Rightarrow> None)"

text \<open>The calendar, for \<^verbatim>\<open>pd.date_range(end=current_date, periods=n, freq='D')\<close>: the
  \<open>n\<close> timestamps one day apart that end at \<open>current_date\<close>, with its time of day.\<close>

definition leap_year :: "int \<Rightarrow> bool" where
  "leap_year y = (if y mod 400 = 0 then True else if y mod 100 = 0 then False else y mod 4 = 0)"

definition days_in_month :: "int \<Rightarrow> int \<Rightarrow> int" where
  "days_in_month y m =
     (if m = 2 then (if leap_year y then 29 else 28)
      else if m = 4 \<or> m = 6 \<or> m = 9 \<or> m = 11 then 30 else 31)"

definition prev_day :: "timestamp \<Rightarrow> timestamp" where
  "prev_day t =
     (if 1 < ts_day t then t\<lparr>ts_day := ts_day t - 1\<rparr>
      else if 1 < ts_month t
        then t\<lparr>ts_month := ts_month t - 1, ts_day := days_in_month (ts_year t) (ts_month t - 1)\<rparr>
      else t\<lparr>ts_year := ts_year t - 1, ts_month := 12, ts_day := 31\<rparr>)"

fun days_before :: "nat \<Rightarrow> timestamp \<Rightarrow> timestamp" where
  "days_before 0 t = t"
| "days_before (Suc k) t = days_before k (prev_day t)"

definition date_range :: "timestamp \<Rightarrow> nat \<Rightarrow> timestamp list" where
  "date_range end_date periods = rev (map (\<lambda>k. days_before k end_date) [0..<periods])"

text \<open>\<^verbatim>\<open>str(n)\<close> for a natural number.\<close>

fun str_of_nat :: "nat \<Rightarrow> string" where
  "str_of_nat n =
     (if n < 10 then [''0123456789'' ! n]
      else str_of_nat (n div 10) @ [''0123456789'' ! (n mod 10)])"

declare str_of_nat.simps [simp del]

text \<open>The columns of \<^verbatim>\<open>processed_data\<close>, one function for each block of
  \<^verbatim>\<open>analyze_excel_data\<close>.\<close>

definition date_column :: "pylib \<Rightarrow> timestamp \<Rightarrow> raw_frame \<Rightarrow> (string \<rightharpoonup> string option) \<Rightarrow> error + cell list" where
  "date_column L now df column_mapping =
     (case mapped column_mapping ''Date'' of
        Some c \<Rightarrow> (case column df c of
                     Inl e \<Rightarrow> Inl e
                   | Inr col \<Rightarrow> Inr (map (to_datetime L) col))
      | None \<Rightarrow> Inr (map Stamp (date_range now (length (raw_rows df)))))"

definition description_column :: "raw_frame \<Rightarrow> (string \<rightharpoonup> string option) \<Rightarrow> error + cell list" where
  "description_column df column_mapping =
     (case mapped column_mapping ''Description'' of
        Some c \<Rightarrow> column df c
      | None \<Rightarrow> Inr (map (\<lambda>i. Text (transaction_prefix @ str_of_nat (i + 1)))
                        [0..<length (raw_rows df)]))"

text \<open>\<^verbatim>\<open>.fillna(0)\<close> after the coercion to a number.\<close>

definition fillna0 :: "real option \<Rightarrow> real" where
  "fillna0 v = (case v of None \<Rightarrow> 0 | Some x \<Rightarrow> x)"

definition income_column :: "pylib \<Rightarrow> raw_frame \<Rightarrow> (string \<rightharpoonup> string option) \<Rightarrow> error + real list" where
  "income_column L df column_mapping =
     (case mapped column_mapping ''Income'' of
        Some c \<Rightarrow> (case column df c of
                     Inl e \<Rightarrow> Inl e
                   | Inr col \<Rightarrow> Inr (map (\<lambda>v. fillna0 (to_numeric L v)) col))
      | None \<Rightarrow> Inr (replicate (length (raw_rows df)) 0))"

definition expenses_column :: "pylib \<Rightarrow> raw_frame \<Rightarrow> (string \<rightharpoonup> string option) \<Rightarrow> error + real list" where
  "expenses_column L df column_mapping =
     (case mapped column_mapping ''Expenses'' of
        Some c \<Rightarrow> (case column df c of
                     Inl e \<Rightarrow> Inl e
                   | Inr col \<Rightarrow> Inr (map (\<lambda>v. \<bar>fillna0 (to_numeric L v)\<bar>) col))
      | None \<Rightarrow> Inr (replicate (length (raw_rows df)) 0))"

text \<open>\<^verbatim>\<open>processed_data.apply(lambda row: classify_transactions(row), axis=1)\<close>: the
  rows then hold Date, Description, Income and Expenses.\<close>

fun classify_rows :: "pylib \<Rightarrow> cell list \<Rightarrow> real list \<Rightarrow> real list \<Rightarrow> cell list" where
  "classify_rows L (d # ds) (i # is) (e # es) =
     Text (classify_transactions L
             \<lparr>s_description = Some d, s_income = Some i, s_expenses = Some e\<rparr>)
       # classify_rows L ds is es"
| "classify_rows L _ _ _ = []"

text \<open>The cleanup of the category column: \<^verbatim>\<open>astype(str)\<close>, then the two
  \<^verbatim>\<open>replace\<close> calls. The \<^verbatim>\<open>fillna\<close> between them finds nothing to fill, every
  element being a string by then.\<close>

definition clean_category :: "pylib \<Rightarrow> cell \<Rightarrow> string" where
  "clean_category L v =
     (let s = py_str L v;
          s1 = (if s = [] then uncategorized else s)
      in if s1 = ''nan'' then uncategorized else s1)"

definition category_column :: "pylib \<Rightarrow> raw_frame \<Rightarrow> (string \<rightharpoonup> string option) \<Rightarrow>
    cell list \<Rightarrow> real list \<Rightarrow> real list \<Rightarrow> error + string list" where
  "category_column L df column_mapping descriptions incomes expenses =
     (case (case mapped column_mapping ''Category'' of
              Some c \<Rightarrow> column df c
            | None \<Rightarrow> Inr (classify_rows L descriptions incomes expenses)) of
        Inl e \<Rightarrow> Inl e
      | Inr col \<Rightarrow> Inr (map (clean_category L) col))"

text \<open>The rows of \<^verbatim>\<open>processed_data\<close> from its columns, with
  \<^verbatim>\<open>Net = Income - Expenses\<close>.\<close>

fun assemble :: "cell list \<Rightarrow> cell list \<Rightarrow> real list \<Rightarrow> real list \<Rightarrow> string list \<Rightarrow> txn list" where
  "assemble (d # ds) (t # ts) (i # is) (e # es) (c # cs) =
     \<lparr>Date = d, Description = t, Income = i, Expenses = e, Category = c, Net = i - e\<rparr>
       # assemble ds ts is es cs"
| "assemble _ _ _ _ _ = []"

definition processed_columns :: "string list" where
  "processed_columns = [''Date'', ''Description'', ''Income'', ''Expenses'', ''Category'', ''Net'']"

text \<open>\<^verbatim>\<open>analyze_excel_data(df, column_mapping)\<close>. The input is copied first and the
  copy is only read, so the caller's table is not part of the result. The last step
  is \<^verbatim>\<open>dropna(subset=['Date'])\<close>.\<close>

definition analyze_excel_data :: "pylib \<Rightarrow> timestamp \<Rightarrow> raw_frame \<Rightarrow> (string \<rightharpoonup> string option) \<Rightarrow> error + frame" where
  "analyze_excel_data L now df column_mapping =
     (case date_column L now df column_mapping of
        Inl e \<Rightarrow> Inl e
      | Inr dates \<Rightarrow>
     (case description_column df column_mapping of
        Inl e \<Rightarrow> Inl e
      | Inr descriptions \<Rightarrow>
     (case income_column L df column_mapping of
        Inl e \<Rightarrow> Inl e
      | Inr incomes \<Rightarrow>
     (case expenses_column L df column_mapping of
        Inl e \<Rightarrow> Inl e
      | Inr expenses \<Rightarrow>
     (case category_column L df column_mapping descriptions incomes expenses of
        Inl e \<Rightarrow> Inl e
      | Inr categories \<Rightarrow>
          Inr \<lparr>columns = processed_columns,
               rows = filter (\<lambda>r. \<not> isna (Date r))
                        (assemble dates descriptions incomes expenses categories)\<rparr>)))))"

section \<open>Aggregator\<close>

text \<open>The summary of the result for no data.\<close>

definition no_data_summary :: string where
  "no_data_summary =
     [CHR 0xD9, CHR 0x84, CHR 0xD8, CHR 0xA7] @ '' '' @ [CHR 0xD8, CHR 0xAA, CHR 0xD9, CHR 0x88,
       CHR 0xD8, CHR 0xAC, CHR 0xD8, CHR 0xAF] @ '' '' @ [CHR 0xD8, CHR 0xA8, CHR 0xD9, CHR 0x8A,
       CHR 0xD8, CHR 0xA7, CHR 0xD9, CHR 0x86, CHR 0xD8, CHR 0xA7, CHR 0xD8, CHR 0xAA] @ '' ''
       @ [CHR 0xD9, CHR 0x83, CHR 0xD8, CHR 0xA7, CHR 0xD9, CHR 0x81, CHR 0xD9, CHR 0x8A,
       CHR 0xD8, CHR 0xA9] @ '' '' @ [CHR 0xD9, CHR 0x84, CHR 0xD9, CHR 0x84, CHR 0xD8, CHR 0xAA,
       CHR 0xD8, CHR 0xAD, CHR 0xD9, CHR 0x84, CHR 0xD9, CHR 0x8A, CHR 0xD9, CHR 0x84] @ ''.''"

text \<open>The insight of the result for no data.\<close>

definition no_data_insight :: string where
  "no_data_insight =
     [CHR 0xD9, CHR 0x84, CHR 0xD8, CHR 0xA7] @ '' '' @ [CHR 0xD8, CHR 0xAA, CHR 0xD9, CHR 0x88,
       CHR 0xD8, CHR 0xAC, CHR 0xD8, CHR 0xAF] @ '' '' @ [CHR 0xD8, CHR 0xA8, CHR 0xD9, CHR 0x8A,
       CHR 0xD8, CHR 0xA7, CHR 0xD9, CHR 0x86, CHR 0xD8, CHR 0xA7, CHR 0xD8, CHR 0xAA] @ '' ''
       @ [CHR 0xD9, CHR 0x85, CHR 0xD8, CHR 0xA7, CHR 0xD9, CHR 0x84, CHR 0xD9, CHR 0x8A,
       CHR 0xD8, CHR 0xA9] @ '' '' @ [CHR 0xD9, CHR 0x85, CHR 0xD8, CHR 0xAA, CHR 0xD8, CHR 0xA7,
       CHR 0xD8, CHR 0xAD, CHR 0xD8, CHR 0xA9] @ '' '' @ [CHR 0xD9, CHR 0x84, CHR 0xD9, CHR 0x84,
       CHR 0xD8, CHR 0xAA, CHR 0xD8, CHR 0xAD, CHR 0xD9, CHR 0x84, CHR 0xD9, CHR 0x8A, CHR 0xD9,
       CHR 0x84] @ ''.''"

text \<open>The recommendation of the result for no data.\<close>

definition no_data_recommendation :: string where
  "no_data_recommendation =
     [CHR 0xD9, CHR 0x8A, CHR 0xD8, CHR 0xB1, CHR 0xD8, CHR 0xAC, CHR 0xD9, CHR 0x89] @ '' ''
       @ [CHR 0xD8, CHR 0xAA, CHR 0xD8, CHR 0xAD, CHR 0xD9, CHR 0x85, CHR 0xD9, CHR 0x8A,
       CHR 0xD9, CHR 0x84] @ '' '' @ [CHR 0xD9, CHR 0x85, CHR 0xD9, CHR 0x84, CHR 0xD9, CHR 0x81]
       @ '' '' @ [CHR 0xD8, CHR 0xA8, CHR 0xD9, CHR 0x8A, CHR 0xD8, CHR 0xA7, CHR 0xD9, CHR 0x86,
       CHR 0xD8, CHR 0xA7, CHR 0xD8, CHR 0xAA] @ '' '' @ [CHR 0xD9, CHR 0x85, CHR 0xD8, CHR 0xA7,
       CHR 0xD9, CHR 0x84, CHR 0xD9, CHR 0x8A, CHR 0xD8, CHR 0xA9] @ '' '' @ [CHR 0xD8, CHR 0xB5,
       CHR 0xD8, CHR 0xA7, CHR 0xD9, CHR 0x84, CHR 0xD8, CHR 0xAD] @ '' '' @ [CHR 0xD9, CHR 0x84,
       CHR 0xD9, CHR 0x84, CHR 0xD8, CHR 0xAA, CHR 0xD8, CHR 0xAD, CHR 0xD9, CHR 0x84, CHR 0xD9,
       CHR 0x8A, CHR 0xD9, CHR 0x84] @ ''.''"

text \<open>The summary when the net cash flow is not negative; the arguments are the three amounts as printed.\<close>

definition summary_surplus :: "string \<Rightarrow> string \<Rightarrow> string \<Rightarrow> string" where
  "summary_surplus total_income total_expenses net_cash_flow =
     [CHR 0xD8, CHR 0xA5, CHR 0xD8, CHR 0xAC, CHR 0xD9, CHR 0x85, CHR 0xD8, CHR 0xA7, CHR 0xD9,
       CHR 0x84, CHR 0xD9, CHR 0x8A] @ '' '' @ [CHR 0xD8, CHR 0xA7, CHR 0xD9, CHR 0x84, CHR 0xD8,
       CHR 0xA5, CHR 0xD9, CHR 0x8A, CHR 0xD8, CHR 0xB1, CHR 0xD8, CHR 0xA7, CHR 0xD8, CHR 0xAF,
       CHR 0xD8, CHR 0xA7, CHR 0xD8, CHR 0xAA] @ '' (''
       @ total_income
       @ '') '' @ [CHR 0xD8, CHR 0xA3, CHR 0xD9, CHR 0x83, CHR 0xD8, CHR 0xA8, CHR 0xD8, CHR 0xB1]
         @ '' '' @ [CHR 0xD9, CHR 0x85, CHR 0xD9, CHR 0x86] @ '' '' @ [CHR 0xD8, CHR 0xA5,
         CHR 0xD8, CHR 0xAC, CHR 0xD9, CHR 0x85, CHR 0xD8, CHR 0xA7, CHR 0xD9, CHR 0x84, CHR 0xD9,
         CHR 0x8A] @ '' '' @ [CHR 0xD8, CHR 0xA7, CHR 0xD9, CHR 0x84, CHR 0xD9, CHR 0x85,
         CHR 0xD8, CHR 0xB5, CHR 0xD8, CHR 0xB1, CHR 0xD9, CHR 0x88, CHR 0xD9, CHR 0x81, CHR 0xD8,
         CHR 0xA7, CHR 0xD8, CHR 0xAA] @ '' (''
       @ total_expenses
       @ '')'' @ [CHR 0xD8, CHR 0x8C] @ '' '' @ [CHR 0xD9, CHR 0x85, CHR 0xD9, CHR 0x85, CHR 0xD8,
         CHR 0xA7] @ '' '' @ [CHR 0xD9, CHR 0x8A, CHR 0xD8, CHR 0xB9, CHR 0xD9, CHR 0x86,
         CHR 0xD9, CHR 0x8A] @ '' '' @ [CHR 0xD8, CHR 0xA3, CHR 0xD9, CHR 0x86] @ '' ''
         @ [CHR 0xD9, CHR 0x87, CHR 0xD9, CHR 0x86, CHR 0xD8, CHR 0xA7, CHR 0xD9, CHR 0x83]
         @ '' '' @ [CHR 0xD8, CHR 0xAA, CHR 0xD8, CHR 0xAF, CHR 0xD9, CHR 0x81, CHR 0xD9,
         CHR 0x82] @ '' '' @ [CHR 0xD9, CHR 0x86, CHR 0xD9, CHR 0x82, CHR 0xD8, CHR 0xAF,
         CHR 0xD9, CHR 0x8A] @ '' '' @ [CHR 0xD8, CHR 0xA5, CHR 0xD9, CHR 0x8A, CHR 0xD8,
         CHR 0xAC, CHR 0xD8, CHR 0xA7, CHR 0xD8, CHR 0xA8, CHR 0xD9, CHR 0x8A] @ '' ''
         @ [CHR 0xD8, CHR 0xA8, CHR 0xD9, CHR 0x82, CHR 0xD9, CHR 0x8A, CHR 0xD9, CHR 0x85,
         CHR 0xD8, CHR 0xA9] @ '' ''
       @ net_cash_flow
       @ ''.''"

text \<open>The first insight when the net cash flow is not negative.\<close>

definition surplus_insight :: string where
  "surplus_insight =
     [CHR 0xD8, CHR 0xA7, CHR 0xD9, CHR 0x84, CHR 0xD8, CHR 0xAA, CHR 0xD8, CHR 0xAF, CHR 0xD9,
       CHR 0x81, CHR 0xD9, CHR 0x82] @ '' '' @ [CHR 0xD8, CHR 0xA7, CHR 0xD9, CHR 0x84, CHR 0xD9,
       CHR 0x86, CHR 0xD9, CHR 0x82, CHR 0xD8, CHR 0xAF, CHR 0xD9, CHR 0x8A] @ '' '' @ [CHR 0xD8,
       CHR 0xA5, CHR 0xD9, CHR 0x8A, CHR 0xD8, CHR 0xAC, CHR 0xD8, CHR 0xA7, CHR 0xD8, CHR 0xA8,
       CHR 0xD9, CHR 0x8A, CHR 0xD8, CHR 0x8C] @ '' '' @ [CHR 0xD9, CHR 0x85, CHR 0xD9, CHR 0x85,
       CHR 0xD8, CHR 0xA7] @ '' '' @ [CHR 0xD9, CHR 0x8A, CHR 0xD8, CHR 0xB4, CHR 0xD9, CHR 0x8A,
       CHR 0xD8, CHR 0xB1] @ '' '' @ [CHR 0xD8, CHR 0xA5, CHR 0xD9, CHR 0x84, CHR 0xD9, CHR 0x89]
       @ '' '' @ [CHR 0xD8, CHR 0xAD, CHR 0xD8, CHR 0xA7, CHR 0xD9, CHR 0x84, CHR 0xD8, CHR 0xA9]
       @ '' '' @ [CHR 0xD9, CHR 0x85, CHR 0xD8, CHR 0xA7, CHR 0xD9, CHR 0x84, CHR 0xD9, CHR 0x8A,
       CHR 0xD8, CHR 0xA9] @ '' '' @ [CHR 0xD8, CHR 0xAC, CHR 0xD9, CHR 0x8A, CHR 0xD8, CHR 0xAF,
       CHR 0xD8, CHR 0xA9] @ ''.''"

text \<open>The summary when the net cash flow is negative.\<close>

definition summary_deficit :: "string \<Rightarrow> string \<Rightarrow> string \<Rightarrow> string" where
  "summary_deficit total_expenses total_income net_cash_flow =
     [CHR 0xD8, CHR 0xA5, CHR 0xD8, CHR 0xAC, CHR 0xD9, CHR 0x85, CHR 0xD8, CHR 0xA7, CHR 0xD9,
       CHR 0x84, CHR 0xD9, CHR 0x8A] @ '' '' @ [CHR 0xD8, CHR 0xA7, CHR 0xD9, CHR 0x84, CHR 0xD9,
       CHR 0x85, CHR 0xD8, CHR 0xB5, CHR 0xD8, CHR 0xB1, CHR 0xD9, CHR 0x88, CHR 0xD9, CHR 0x81,
       CHR 0xD8, CHR 0xA7, CHR 0xD8, CHR 0xAA] @ '' (''
       @ total_expenses
       @ '') '' @ [CHR 0xD8, CHR 0xA3, CHR 0xD9, CHR 0x83, CHR 0xD8, CHR 0xA8, CHR 0xD8, CHR 0xB1]
         @ '' '' @ [CHR 0xD9, CHR 0x85, CHR 0xD9, CHR 0x86] @ '' '' @ [CHR 0xD8, CHR 0xA5,
         CHR 0xD8, CHR 0xAC, CHR 0xD9, CHR 0x85, CHR 0xD8, CHR 0xA7, CHR 0xD9, CHR 0x84, CHR 0xD9,
         CHR 0x8A] @ '' '' @ [CHR 0xD8, CHR 0xA7, CHR 0xD9, CHR 0x84, CHR 0xD8, CHR 0xA5,
         CHR 0xD9, CHR 0x8A, CHR 0xD8, CHR 0xB1, CHR 0xD8, CHR 0xA7, CHR 0xD8, CHR 0xAF, CHR 0xD8,
         CHR 0xA7, CHR 0xD8, CHR 0xAA] @ '' (''
       @ total_income
       @ '')'' @ [CHR 0xD8, CHR 0x8C] @ '' '' @ [CHR 0xD9, CHR 0x85, CHR 0xD9, CHR 0x85, CHR 0xD8,
         CHR 0xA7] @ '' '' @ [CHR 0xD9, CHR 0x8A, CHR 0xD8, CHR 0xB9, CHR 0xD9, CHR 0x86,
         CHR 0xD9, CHR 0x8A] @ '' '' @ [CHR 0xD8, CHR 0xA3, CHR 0xD9, CHR 0x86] @ '' ''
         @ [CHR 0xD9, CHR 0x87, CHR 0xD9, CHR 0x86, CHR 0xD8, CHR 0xA7, CHR 0xD9, CHR 0x83]
         @ '' '' @ [CHR 0xD8, CHR 0xAA, CHR 0xD8, CHR 0xAF, CHR 0xD9, CHR 0x81, CHR 0xD9,
         CHR 0x82] @ '' '' @ [CHR 0xD9, CHR 0x86, CHR 0xD9, CHR 0x82, CHR 0xD8, CHR 0xAF,
         CHR 0xD9, CHR 0x8A] @ '' '' @ [CHR 0xD8, CHR 0xB3, CHR 0xD9, CHR 0x84, CHR 0xD8,
         CHR 0xA8, CHR 0xD9, CHR 0x8A] @ '' '' @ [CHR 0xD8, CHR 0xA8, CHR 0xD9, CHR 0x82,
         CHR 0xD9, CHR 0x8A, CHR 0xD9, CHR 0x85, CHR 0xD8, CHR 0xA9] @ '' ''
       @ net_cash_flow
       @ ''.''"

text \<open>The first insight when the net cash flow is negative.\<close>

definition deficit_insight :: string where
  "deficit_insight =
     [CHR 0xD8, CHR 0xA7, CHR 0xD9, CHR 0x84, CHR 0xD8, CHR 0xAA, CHR 0xD8, CHR 0xAF, CHR 0xD9,
       CHR 0x81, CHR 0xD9, CHR 0x82] @ '' '' @ [CHR 0xD8, CHR 0xA7, CHR 0xD9, CHR 0x84, CHR 0xD9,
       CHR 0x86, CHR 0xD9, CHR 0x82, CHR 0xD8, CHR 0xAF, CHR 0xD9, CHR 0x8A] @ '' '' @ [CHR 0xD8,
       CHR 0xB3, CHR 0xD9, CHR 0x84, CHR 0xD8, CHR 0xA8, CHR 0xD9, CHR 0x8A, CHR 0xD8, CHR 0x8C]
       @ '' '' @ [CHR 0xD9, CHR 0x82, CHR 0xD8, CHR 0xAF] @ '' '' @ [CHR 0xD8, CHR 0xAA, CHR 0xD8,
       CHR 0xAD, CHR 0xD8, CHR 0xAA, CHR 0xD8, CHR 0xA7, CHR 0xD8, CHR 0xAC] @ '' '' @ [CHR 0xD8,
       CHR 0xA5, CHR 0xD9, CHR 0x84, CHR 0xD9, CHR 0x89] @ '' '' @ [CHR 0xD9, CHR 0x85, CHR 0xD8,
       CHR 0xB1, CHR 0xD8, CHR 0xA7, CHR 0xD8, CHR 0xAC, CHR 0xD8, CHR 0xB9, CHR 0xD8, CHR 0xA9]
       @ '' '' @ [CHR 0xD8, CHR 0xA7, CHR 0xD9, CHR 0x84, CHR 0xD9, CHR 0x86, CHR 0xD9, CHR 0x81,
       CHR 0xD9, CHR 0x82, CHR 0xD8, CHR 0xA7, CHR 0xD8, CHR 0xAA] @ '' '' @ [CHR 0xD8, CHR 0xA3,
       CHR 0xD9, CHR 0x88] @ '' '' @ [CHR 0xD8, CHR 0xB2, CHR 0xD9, CHR 0x8A, CHR 0xD8, CHR 0xA7,
       CHR 0xD8, CHR 0xAF, CHR 0xD8, CHR 0xA9] @ '' '' @ [CHR 0xD8, CHR 0xA7, CHR 0xD9, CHR 0x84,
       CHR 0xD8, CHR 0xA5, CHR 0xD9, CHR 0x8A, CHR 0xD8, CHR 0xB1, CHR 0xD8, CHR 0xA7, CHR 0xD8,
       CHR 0xAF, CHR 0xD8, CHR 0xA7, CHR 0xD8, CHR 0xAA] @ ''.''"

text \<open>The placeholder category of an empty grouping.\<close>

definition unavailable :: string where
  "unavailable =
     [CHR 0xD8, CHR 0xBA, CHR 0xD9, CHR 0x8A, CHR 0xD8, CHR 0xB1] @ '' '' @ [CHR 0xD9, CHR 0x85,
       CHR 0xD8, CHR 0xAA, CHR 0xD9, CHR 0x88, CHR 0xD9, CHR 0x81, CHR 0xD8, CHR 0xB1]"

text \<open>The insight that names the category of the largest expenses.\<close>

definition top_expense_insight :: "string \<Rightarrow> string \<Rightarrow> string" where
  "top_expense_insight top_expense_category top_expense_value =
     [CHR 0xD8, CHR 0xA3, CHR 0xD9, CHR 0x83, CHR 0xD8, CHR 0xA8, CHR 0xD8, CHR 0xB1] @ '' ''
       @ [CHR 0xD9, CHR 0x81, CHR 0xD8, CHR 0xA6, CHR 0xD8, CHR 0xA9] @ '' '' @ [CHR 0xD9,
       CHR 0x85, CHR 0xD8, CHR 0xB5, CHR 0xD8, CHR 0xB1, CHR 0xD9, CHR 0x88, CHR 0xD9, CHR 0x81,
       CHR 0xD8, CHR 0xA7, CHR 0xD8, CHR 0xAA] @ '' '' @ [CHR 0xD9, CHR 0x87, CHR 0xD9, CHR 0x8A]
       @ '' '' @ [CHR 0x27]
       @ top_expense_category
       @ [CHR 0x27] @ '' '' @ [CHR 0xD8, CHR 0xA8, CHR 0xD9, CHR 0x82, CHR 0xD9, CHR 0x8A,
         CHR 0xD9, CHR 0x85, CHR 0xD8, CHR 0xA9] @ '' ''
       @ top_expense_value
       @ ''.''"

text \<open>The insight that names the category of the largest income.\<close>

definition top_income_insight :: "string \<Rightarrow> string \<Rightarrow> string" where
  "top_income_insight top_income_category top_income_value =
     [CHR 0xD8, CHR 0xA3, CHR 0xD9, CHR 0x83, CHR 0xD8, CHR 0xA8, CHR 0xD8, CHR 0xB1] @ '' ''
       @ [CHR 0xD9, CHR 0x81, CHR 0xD8, CHR 0xA6, CHR 0xD8, CHR 0xA9] @ '' '' @ [CHR 0xD8,
       CHR 0xA5, CHR 0xD9, CHR 0x8A, CHR 0xD8, CHR 0xB1, CHR 0xD8, CHR 0xA7, CHR 0xD8, CHR 0xAF,
       CHR 0xD8, CHR 0xA7, CHR 0xD8, CHR 0xAA] @ '' '' @ [CHR 0xD9, CHR 0x87, CHR 0xD9, CHR 0x8A]
       @ '' '' @ [CHR 0x27]
       @ top_income_category
       @ [CHR 0x27] @ '' '' @ [CHR 0xD8, CHR 0xA8, CHR 0xD9, CHR 0x82, CHR 0xD9, CHR 0x8A,
         CHR 0xD9, CHR 0x85, CHR 0xD8, CHR 0xA9] @ '' ''
       @ top_income_value
       @ ''.''"

text \<open>The two recommendations for a negative net cash flow.\<close>

definition recommend_cut_expenses :: string where
  "recommend_cut_expenses =
     [CHR 0xD8, CHR 0xAE, CHR 0xD9, CHR 0x81, CHR 0xD8, CHR 0xB6] @ '' '' @ [CHR 0xD8, CHR 0xA7,
       CHR 0xD9, CHR 0x84, CHR 0xD9, CHR 0x86, CHR 0xD9, CHR 0x81, CHR 0xD9, CHR 0x82, CHR 0xD8,
       CHR 0xA7, CHR 0xD8, CHR 0xAA] @ '' '' @ [CHR 0xD9, CHR 0x81, CHR 0xD9, CHR 0x8A] @ '' ''
       @ [CHR 0xD8, CHR 0xA7, CHR 0xD9, CHR 0x84, CHR 0xD9, CHR 0x81, CHR 0xD8, CHR 0xA6,
       CHR 0xD8, CHR 0xA7, CHR 0xD8, CHR 0xAA] @ '' '' @ [CHR 0xD8, CHR 0xB0, CHR 0xD8, CHR 0xA7,
       CHR 0xD8, CHR 0xAA] @ '' '' @ [CHR 0xD8, CHR 0xA7, CHR 0xD9, CHR 0x84, CHR 0xD9, CHR 0x85,
       CHR 0xD8, CHR 0xB5, CHR 0xD8, CHR 0xB1, CHR 0xD9, CHR 0x88, CHR 0xD9, CHR 0x81, CHR 0xD8,
       CHR 0xA7, CHR 0xD8, CHR 0xAA] @ '' '' @ [CHR 0xD8, CHR 0xA7, CHR 0xD9, CHR 0x84, CHR 0xD8,
       CHR 0xB9, CHR 0xD8, CHR 0xA7, CHR 0xD9, CHR 0x84, CHR 0xD9, CHR 0x8A, CHR 0xD8, CHR 0xA9]
       @ ''.''"

text \<open>The second of them.\<close>

definition recommend_new_income :: string where
  "recommend_new_income =
     [CHR 0xD8, CHR 0xA7, CHR 0xD9, CHR 0x84, CHR 0xD8, CHR 0xA8, CHR 0xD8, CHR 0xAD, CHR 0xD8,
       CHR 0xAB] @ '' '' @ [CHR 0xD8, CHR 0xB9, CHR 0xD9, CHR 0x86] @ '' '' @ [CHR 0xD9, CHR 0x85,
       CHR 0xD8, CHR 0xB5, CHR 0xD8, CHR 0xA7, CHR 0xD8, CHR 0xAF, CHR 0xD8, CHR 0xB1] @ '' ''
       @ [CHR 0xD8, CHR 0xA5, CHR 0xD9, CHR 0x8A, CHR 0xD8, CHR 0xB1, CHR 0xD8, CHR 0xA7,
       CHR 0xD8, CHR 0xAF, CHR 0xD8, CHR 0xA7, CHR 0xD8, CHR 0xAA] @ '' '' @ [CHR 0xD8, CHR 0xAC,
       CHR 0xD8, CHR 0xAF, CHR 0xD9, CHR 0x8A, CHR 0xD8, CHR 0xAF, CHR 0xD8, CHR 0xA9] @ '' ''
       @ [CHR 0xD9, CHR 0x84, CHR 0xD8, CHR 0xAA, CHR 0xD8, CHR 0xAD, CHR 0xD8, CHR 0xB3,
       CHR 0xD9, CHR 0x8A, CHR 0xD9, CHR 0x86] @ '' '' @ [CHR 0xD8, CHR 0xA7, CHR 0xD9, CHR 0x84,
       CHR 0xD8, CHR 0xAA, CHR 0xD8, CHR 0xAF, CHR 0xD9, CHR 0x81, CHR 0xD9, CHR 0x82] @ '' ''
       @ [CHR 0xD8, CHR 0xA7, CHR 0xD9, CHR 0x84, CHR 0xD9, CHR 0x86, CHR 0xD9, CHR 0x82,
       CHR 0xD8, CHR 0xAF, CHR 0xD9, CHR 0x8A] @ ''.''"

text \<open>The two recommendations otherwise.\<close>

definition recommend_keep_balance :: string where
  "recommend_keep_balance =
     [CHR 0xD8, CHR 0xA7, CHR 0xD9, CHR 0x84, CHR 0xD8, CHR 0xA7, CHR 0xD8, CHR 0xB3, CHR 0xD8,
       CHR 0xAA, CHR 0xD9, CHR 0x85, CHR 0xD8, CHR 0xB1, CHR 0xD8, CHR 0xA7, CHR 0xD8, CHR 0xB1]
       @ '' '' @ [CHR 0xD9, CHR 0x81, CHR 0xD9, CHR 0x8A] @ '' '' @ [CHR 0xD8, CHR 0xA7, CHR 0xD9,
       CHR 0x84, CHR 0xD8, CHR 0xAD, CHR 0xD9, CHR 0x81, CHR 0xD8, CHR 0xA7, CHR 0xD8, CHR 0xB8]
       @ '' '' @ [CHR 0xD8, CHR 0xB9, CHR 0xD9, CHR 0x84, CHR 0xD9, CHR 0x89] @ '' '' @ [CHR 0xD8,
       CHR 0xA7, CHR 0xD9, CHR 0x84, CHR 0xD8, CHR 0xAA, CHR 0xD9, CHR 0x88, CHR 0xD8, CHR 0xA7,
       CHR 0xD8, CHR 0xB2, CHR 0xD9, CHR 0x86] @ '' '' @ [CHR 0xD8, CHR 0xA8, CHR 0xD9, CHR 0x8A,
       CHR 0xD9, CHR 0x86] @ '' '' @ [CHR 0xD8, CHR 0xA7, CHR 0xD9, CHR 0x84, CHR 0xD8, CHR 0xA5,
       CHR 0xD9, CHR 0x8A, CHR 0xD8, CHR 0xB1, CHR 0xD8, CHR 0xA7, CHR 0xD8, CHR 0xAF, CHR 0xD8,
       CHR 0xA7, CHR 0xD8, CHR 0xAA] @ '' '' @ [CHR 0xD9, CHR 0x88, CHR 0xD8, CHR 0xA7, CHR 0xD9,
       CHR 0x84, CHR 0xD9, CHR 0x85, CHR 0xD8, CHR 0xB5, CHR 0xD8, CHR 0xB1, CHR 0xD9, CHR 0x88,
       CHR 0xD9, CHR 0x81, CHR 0xD8, CHR 0xA7, CHR 0xD8, CHR 0xAA] @ ''.''"

text \<open>The second of them.\<close>

definition recommend_invest_surplus :: string where
  "recommend_invest_surplus =
     [CHR 0xD8, CHR 0xA7, CHR 0xD8, CHR 0xB3, CHR 0xD8, CHR 0xAA, CHR 0xD8, CHR 0xAB, CHR 0xD9,
       CHR 0x85, CHR 0xD8, CHR 0xA7, CHR 0xD8, CHR 0xB1] @ '' '' @ [CHR 0xD8, CHR 0xA7, CHR 0xD9,
       CHR 0x84, CHR 0xD9, CHR 0x81, CHR 0xD8, CHR 0xA7, CHR 0xD8, CHR 0xA6, CHR 0xD8, CHR 0xB6]
       @ '' '' @ [CHR 0xD8, CHR 0xA7, CHR 0xD9, CHR 0x84, CHR 0xD9, CHR 0x86, CHR 0xD9, CHR 0x82,
       CHR 0xD8, CHR 0xAF, CHR 0xD9, CHR 0x8A] @ '' '' @ [CHR 0xD9, CHR 0x81, CHR 0xD9, CHR 0x8A]
       @ '' '' @ [CHR 0xD9, CHR 0x85, CHR 0xD8, CHR 0xAC, CHR 0xD8, CHR 0xA7, CHR 0xD9, CHR 0x84,
       CHR 0xD8, CHR 0xA7, CHR 0xD8, CHR 0xAA] @ '' '' @ [CHR 0xD8, CHR 0xAA, CHR 0xD8, CHR 0xB3,
       CHR 0xD8, CHR 0xA7, CHR 0xD8, CHR 0xB9, CHR 0xD8, CHR 0xAF] @ '' '' @ [CHR 0xD8, CHR 0xB9,
       CHR 0xD9, CHR 0x84, CHR 0xD9, CHR 0x89] @ '' '' @ [CHR 0xD9, CHR 0x86, CHR 0xD9, CHR 0x85,
       CHR 0xD9, CHR 0x88] @ '' '' @ [CHR 0xD8, CHR 0xA7, CHR 0xD9, CHR 0x84, CHR 0xD8, CHR 0xA5,
       CHR 0xD9, CHR 0x8A, CHR 0xD8, CHR 0xB1, CHR 0xD8, CHR 0xA7, CHR 0xD8, CHR 0xAF, CHR 0xD8,
       CHR 0xA7, CHR 0xD8, CHR 0xAA] @ ''.''"

text \<open>One entry of \<^verbatim>\<open>category_analysis\<close>.\<close>

record category_stats =
  cs_expenses :: real
  cs_income :: real
  cs_net :: real

text \<open>The dictionary that the aggregator returns.\<close>

record analysis =
  summary :: string
  insights :: "string list"
  category_analysis :: "string \<rightharpoonup> category_stats"
  trends :: "string \<rightharpoonup> real"
  recommendations :: "string list"

text \<open>\<^verbatim>\<open>data.empty\<close>: no column or no row.\<close>

definition frame_empty :: "frame \<Rightarrow> bool" where
  "frame_empty data = (columns data = [] \<or> rows data = [])"

text \<open>\<^verbatim>\<open>data.groupby('Category')[col].sum()\<close>: one entry for each category, the
  categories in ascending order.\<close>

definition groupby_sum :: "(txn \<Rightarrow> real) \<Rightarrow> txn list \<Rightarrow> (string \<times> real) list" where
  "groupby_sum col rs =
     map (\<lambda>c. (c, sum_list (map col (filter (\<lambda>r. Category r = c) rs))))
       (sort (remdups (map Category rs)))"

text \<open>\<^verbatim>\<open>s.idxmax()\<close> and \<^verbatim>\<open>s.max()\<close> of a series that is not empty: the first
  entry that holds the largest value.\<close>

fun top_from :: "string \<Rightarrow> real \<Rightarrow> (string \<times> real) list \<Rightarrow> string \<times> real" where
  "top_from k v [] = (k, v)"
| "top_from k v ((k', v') # rest) = (if v < v' then top_from k' v' rest else top_from k v rest)"

text \<open>\<^verbatim>\<open>s.idxmax() if not s.empty else ...\<close> and \<^verbatim>\<open>s.max() if not s.empty else 0\<close>.\<close>

definition top_entry :: "(string \<times> real) list \<Rightarrow> string \<times> real" where
  "top_entry s = (case s of [] \<Rightarrow> (unavailable, 0) | (k, v) # rest \<Rightarrow> top_from k v rest)"

text \<open>\<^verbatim>\<open>s.get(category, 0)\<close>.\<close>

definition series_get :: "(string \<times> real) list \<Rightarrow> string \<Rightarrow> real" where
  "series_get s category = (case map_of s category of None \<Rightarrow> 0 | Some v \<Rightarrow> v)"

definition no_data_analysis :: analysis where
  "no_data_analysis =
     \<lparr>summary = no_data_summary,
      insights = [no_data_insight],
      category_analysis = Map.empty,
      trends = Map.empty,
      recommendations = [no_data_recommendation]\<rparr>"

text \<open>\<^verbatim>\<open>generate_ai_insights(data)\<close>; \<open>None\<close> is Python's \<^verbatim>\<open>None\<close>. Reading the
  Income or the Expenses column of a table that lacks it raises \<^verbatim>\<open>KeyError\<close>.\<close>

definition generate_ai_insights :: "pylib \<Rightarrow> frame option \<Rightarrow> error + analysis" where
  "generate_ai_insights L data_opt =
     (case data_opt of
        None \<Rightarrow> Inr no_data_analysis
      | Some data \<Rightarrow>
          if frame_empty data then Inr no_data_analysis
          else if ''Income'' \<notin> set (columns data) then Inl (KeyError ''Income'')
          else if ''Expenses'' \<notin> set (columns data) then Inl (KeyError ''Expenses'')
          else
            let total_income = sum_list (map Income (rows data));
                total_expenses = sum_list (map Expenses (rows data));
                net_cash_flow = total_income - total_expenses;
                has_category = (''Category'' \<in> set (columns data));
                expenses_by_category = groupby_sum Expenses (rows data);
                income_by_category = groupby_sum Income (rows data);
                category_analysis =
                  (if has_category
                   then map_of (map (\<lambda>category.
                          let expense = series_get expenses_by_category category;
                              income = series_get income_by_category category
                          in (category,
                              \<lparr>cs_expenses = expense, cs_income = income,
                               cs_net = income - expense\<rparr>))
                        (map fst expenses_by_category @ map fst income_by_category))
                   else Map.empty);
                summary =
                  (if 0 \<le> net_cash_flow
                   then summary_surplus (fmt_2f L total_income) (fmt_2f L total_expenses)
                          (fmt_2f L net_cash_flow)
                   else summary_deficit (fmt_2f L total_expenses) (fmt_2f L total_income)
                          (fmt_2f L \<bar>net_cash_flow\<bar>));
                insights0 = (if 0 \<le> net_cash_flow then [surplus_insight] else [deficit_insight]);
                insights =
                  (if has_category
                   then insights0
                     @ [top_expense_insight (fst (top_entry expenses_by_category))
                          (fmt_2f L (snd (top_entry expenses_by_category)))]
                     @ [top_income_insight (fst (top_entry income_by_category))
                          (fmt_2f L (snd (top_entry income_by_category)))]
                   else insights0);
                recommendations =
                  (if net_cash_flow < 0
                   then [recommend_cut_expenses, recommend_new_income]
                   else [recommend_keep_balance, recommend_invest_surplus])
            in Inr \<lparr>summary = summary, insights = insights,
                    category_analysis = category_analysis, trends = Map.empty,
                    recommendations = recommendations\<rparr>)"

section \<open>Predictor\<close>

text \<open>The summary of the result for no data.\<close>

definition no_forecast_summary :: string where
  "no_forecast_summary =
     [CHR 0xD9, CHR 0x84, CHR 0xD8, CHR 0xA7] @ '' '' @ [CHR 0xD8, CHR 0xAA, CHR 0xD9, CHR 0x88,
       CHR 0xD8, CHR 0xAC, CHR 0xD8, CHR 0xAF] @ '' '' @ [CHR 0xD8, CHR 0xA8, CHR 0xD9, CHR 0x8A,
       CHR 0xD8, CHR 0xA7, CHR 0xD9, CHR 0x86, CHR 0xD8, CHR 0xA7, CHR 0xD8, CHR 0xAA] @ '' ''
       @ [CHR 0xD9, CHR 0x83, CHR 0xD8, CHR 0xA7, CHR 0xD9, CHR 0x81, CHR 0xD9, CHR 0x8A,
       CHR 0xD8, CHR 0xA9] @ '' '' @ [CHR 0xD9, CHR 0x84, CHR 0xD9, CHR 0x84, CHR 0xD8, CHR 0xAA,
       CHR 0xD9, CHR 0x86, CHR 0xD8, CHR 0xA8, CHR 0xD8, CHR 0xA4] @ ''.''"

text \<open>The summary of a forecast; the argument is the number of months as printed.\<close>

definition forecast_summary :: "string \<Rightarrow> string" where
  "forecast_summary months_ahead =
     [CHR 0xD8, CHR 0xAA, CHR 0xD9, CHR 0x85] @ '' '' @ [CHR 0xD8, CHR 0xA5, CHR 0xD9, CHR 0x86,
       CHR 0xD8, CHR 0xB4, CHR 0xD8, CHR 0xA7, CHR 0xD8, CHR 0xA1] @ '' '' @ [CHR 0xD8, CHR 0xAA,
       CHR 0xD9, CHR 0x86, CHR 0xD8, CHR 0xA8, CHR 0xD8, CHR 0xA4, CHR 0xD8, CHR 0xA7, CHR 0xD8,
       CHR 0xAA] @ '' '' @ [CHR 0xD9, CHR 0x85, CHR 0xD8, CHR 0xA7, CHR 0xD9, CHR 0x84, CHR 0xD9,
       CHR 0x8A, CHR 0xD8, CHR 0xA9] @ '' '' @ [CHR 0xD9, CHR 0x84, CHR 0xD9, CHR 0x84, CHR 0xD9,
       CHR 0x80] @ '' ''
       @ months_ahead
       @ '' '' @ [CHR 0xD8, CHR 0xA3, CHR 0xD8, CHR 0xB4, CHR 0xD9, CHR 0x87, CHR 0xD8, CHR 0xB1]
         @ '' '' @ [CHR 0xD8, CHR 0xA7, CHR 0xD9, CHR 0x84, CHR 0xD9, CHR 0x82, CHR 0xD8,
         CHR 0xA7, CHR 0xD8, CHR 0xAF, CHR 0xD9, CHR 0x85, CHR 0xD8, CHR 0xA9] @ '' ''
         @ [CHR 0xD8, CHR 0xA8, CHR 0xD9, CHR 0x86, CHR 0xD8, CHR 0xA7, CHR 0xD8, CHR 0xA1,
         CHR 0xD9, CHR 0x8B] @ '' '' @ [CHR 0xD8, CHR 0xB9, CHR 0xD9, CHR 0x84, CHR 0xD9,
         CHR 0x89] @ '' '' @ [CHR 0xD9, CHR 0x85, CHR 0xD8, CHR 0xAA, CHR 0xD9, CHR 0x88,
         CHR 0xD8, CHR 0xB3, CHR 0xD8, CHR 0xB7] @ '' '' @ [CHR 0xD8, CHR 0xA7, CHR 0xD9,
         CHR 0x84, CHR 0xD8, CHR 0xA5, CHR 0xD9, CHR 0x8A, CHR 0xD8, CHR 0xB1, CHR 0xD8, CHR 0xA7,
         CHR 0xD8, CHR 0xAF, CHR 0xD8, CHR 0xA7, CHR 0xD8, CHR 0xAA] @ '' '' @ [CHR 0xD9,
         CHR 0x88, CHR 0xD8, CHR 0xA7, CHR 0xD9, CHR 0x84, CHR 0xD9, CHR 0x85, CHR 0xD8, CHR 0xB5,
         CHR 0xD8, CHR 0xB1, CHR 0xD9, CHR 0x88, CHR 0xD9, CHR 0x81, CHR 0xD8, CHR 0xA7, CHR 0xD8,
         CHR 0xAA] @ '' '' @ [CHR 0xD8, CHR 0xA7, CHR 0xD9, CHR 0x84, CHR 0xD8, CHR 0xB3,
         CHR 0xD8, CHR 0xA7, CHR 0xD8, CHR 0xA8, CHR 0xD9, CHR 0x82, CHR 0xD8, CHR 0xA9] @ '' ''
         @ [CHR 0xD9, CHR 0x85, CHR 0xD8, CHR 0xB9] @ '' '' @ [CHR 0xD8, CHR 0xA7, CHR 0xD9,
         CHR 0x81, CHR 0xD8, CHR 0xAA, CHR 0xD8, CHR 0xB1, CHR 0xD8, CHR 0xA7, CHR 0xD8, CHR 0xB6]
         @ '' '' @ [CHR 0xD9, CHR 0x86, CHR 0xD9, CHR 0x85, CHR 0xD9, CHR 0x88] @ '' ''
         @ [CHR 0xD8, CHR 0xA8, CHR 0xD8, CHR 0xB3, CHR 0xD9, CHR 0x8A, CHR 0xD8, CHR 0xB7]
         @ ''.''"

text \<open>One entry of \<^verbatim>\<open>monthly_predictions\<close>.\<close>

record prediction =
  month :: string
  predicted_income :: real
  predicted_expenses :: real
  predicted_net :: real
  growth_rate :: real

text \<open>The dictionary that the predictor returns; \<open>forecast_text\<close> is its entry
  \<^verbatim>\<open>summary\<close>.\<close>

record forecast =
  forecast_text :: string
  monthly_predictions :: "prediction list"

text \<open>\<^verbatim>\<open>str(n)\<close> for an integer.\<close>

definition str_of_int :: "int \<Rightarrow> string" where
  "str_of_int n = (if n < 0 then ''-'' @ str_of_nat (nat (- n)) else str_of_nat (nat n))"

text \<open>Calendar months are counted from year 0: the index of a timestamp's month, and
  \<^verbatim>\<open>strftime('%Y-%m')\<close> of a timestamp in the month of a given index (four digits
  for the year, two for the month).\<close>

definition month_index :: "timestamp \<Rightarrow> int" where
  "month_index t = 12 * ts_year t + (ts_month t - 1)"

definition zero_pad :: "nat \<Rightarrow> string \<Rightarrow> string" where
  "zero_pad width s = replicate (width - length s) (CHR ''0'') @ s"

definition strftime_ym :: "int \<Rightarrow> string" where
  "strftime_ym k =
     zero_pad 4 (str_of_nat (nat (k div 12))) @ ''-'' @ zero_pad 2 (str_of_nat (nat (k mod 12 + 1)))"

text \<open>The month of a cell of the Date column after the coercion, if it is a timestamp.\<close>

fun cell_month :: "cell \<Rightarrow> int option" where
  "cell_month (Stamp t) = Some (month_index t)"
| "cell_month _ = None"

text \<open>\<^verbatim>\<open>data['Date'] = pd.to_datetime(data['Date'], errors='coerce')\<close>: the table of
  the caller with its Date column overwritten.\<close>

definition coerce_dates :: "pylib \<Rightarrow> frame \<Rightarrow> frame" where
  "coerce_dates L data = data\<lparr>rows := map (\<lambda>r. r\<lparr>Date := to_datetime L (Date r)\<rparr>) (rows data)\<rparr>"

text \<open>\<^verbatim>\<open>data.groupby(pd.Grouper(key='Date', freq='M')).agg({... 'sum'})\<close>: one bucket
  for every calendar month from the earliest to the latest month of the rows that
  have a date, the months without rows included, each with the sum of its rows.\<close>

definition history_months :: "txn list \<Rightarrow> int list" where
  "history_months rs = List.map_filter (\<lambda>r. cell_month (Date r)) rs"

definition bucket_total :: "(txn \<Rightarrow> real) \<Rightarrow> txn list \<Rightarrow> int \<Rightarrow> real" where
  "bucket_total col rs b = sum_list (map col (filter (\<lambda>r. cell_month (Date r) = Some b) rs))"

definition month_buckets :: "txn list \<Rightarrow> int list" where
  "month_buckets rs =
     (case history_months rs of
        [] \<Rightarrow> []
      | m # ms \<Rightarrow> [fold min ms m .. fold max ms m])"

text \<open>\<^verbatim>\<open>data_by_month['Date'].max()\<close>, as a month index; \<open>None\<close> is NaT.\<close>

definition last_month :: "txn list \<Rightarrow> int option" where
  "last_month rs = (case history_months rs of [] \<Rightarrow> None | m # ms \<Rightarrow> Some (fold max ms m))"

text \<open>\<^verbatim>\<open>data_by_month[col].mean()\<close>.\<close>

definition monthly_mean :: "(txn \<Rightarrow> real) \<Rightarrow> txn list \<Rightarrow> real" where
  "monthly_mean col rs =
     sum_list (map (bucket_total col rs) (month_buckets rs)) / real (length (month_buckets rs))"

text \<open>The body of the \<^verbatim>\<open>try\<close> block after the coercion of the dates. The aggregation
  raises \<^verbatim>\<open>KeyError\<close> for a table without Income or Expenses; with no dated row
  \<^verbatim>\<open>last_date\<close> is NaT and \<^verbatim>\<open>strftime\<close> raises in the first round of the loop,
  before anything is appended.\<close>

definition predict_months :: "frame \<Rightarrow> int \<Rightarrow> error + prediction list" where
  "predict_months data months_ahead =
     (if ''Income'' \<notin> set (columns data) then Inl (KeyError ''Income'')
      else if ''Expenses'' \<notin> set (columns data) then Inl (KeyError ''Expenses'')
      else
        (case last_month (rows data) of
           None \<Rightarrow> if 1 \<le> months_ahead then Inl ValueError else Inr []
         | Some last_date \<Rightarrow>
             let avg_income = monthly_mean Income (rows data);
                 avg_expenses = monthly_mean Expenses (rows data)
             in Inr (map (\<lambda>i.
                       let predicted_income = avg_income * (1 + (real_of_int i * 0.01));
                           predicted_expenses = avg_expenses * (1 + (real_of_int i * 0.005));
                           predicted_net = predicted_income - predicted_expenses
                       in \<lparr>month = strftime_ym (last_date + i),
                           predicted_income = predicted_income,
                           predicted_expenses = predicted_expenses,
                           predicted_net = predicted_net,
                           growth_rate = 0.01\<rparr>)
                     [1..months_ahead])))"

text \<open>The \<^verbatim>\<open>except\<close> branch: one all-zero entry for each month after the current one.\<close>

definition default_predictions :: "timestamp \<Rightarrow> int \<Rightarrow> prediction list" where
  "default_predictions now months_ahead =
     map (\<lambda>i. \<lparr>month = strftime_ym (month_index now + i),
               predicted_income = 0, predicted_expenses = 0, predicted_net = 0,
               growth_rate = 0\<rparr>)
       [1..months_ahead]"

text \<open>\<^verbatim>\<open>generate_financial_predictions(data, months_ahead)\<close>. The function assigns to
  the Date column of its argument, so the result is the returned dictionary together
  with the caller's table as the call leaves it.\<close>

definition generate_financial_predictions ::
    "pylib \<Rightarrow> timestamp \<Rightarrow> frame option \<Rightarrow> int \<Rightarrow> forecast \<times> frame option" where
  "generate_financial_predictions L now data_opt months_ahead =
     (case data_opt of
        None \<Rightarrow> (\<lparr>forecast_text = no_forecast_summary, monthly_predictions = []\<rparr>, None)
      | Some data \<Rightarrow>
          if frame_empty data
          then (\<lparr>forecast_text = no_forecast_summary, monthly_predictions = []\<rparr>, Some data)
          else if ''Date'' \<in> set (columns data) \<and> \<not> list_all (\<lambda>r. isna (Date r)) (rows data)
          then
            let data' = coerce_dates L data;
                monthly_data =
                  (case predict_months data' months_ahead of
                     Inr entries \<Rightarrow> entries
                   | Inl e \<Rightarrow> default_predictions now months_ahead)
            in (\<lparr>forecast_text = forecast_summary (str_of_int months_ahead),
                 monthly_predictions = monthly_data\<rparr>, Some data')
          else (\<lparr>forecast_text = forecast_summary (str_of_int months_ahead),
                 monthly_predictions = []\<rparr>, Some data))"

section \<open>A library instance for the examples\<close>

text \<open>\<^verbatim>\<open>format(x, '.2f')\<close> of a real number: the sign, then the amount rounded to
  hundredths, ties to even.\<close>

definition round_half_even :: "real \<Rightarrow> int" where
  "round_half_even x =
     (let f = \<lfloor>x\<rfloor>; r = x - of_int f
      in if r < 1 / 2 then f else if 1 / 2 < r then f + 1 else if even f then f else f + 1)"

definition fixed2 :: "real \<Rightarrow> string" where
  "fixed2 x =
     (let c = nat (round_half_even (\<bar>x\<bar> * 100))
      in (if x < 0 then ''-'' else []) @ str_of_nat (c div 100) @ ''.''
           @ zero_pad 2 (str_of_nat (c mod 100)))"

text \<open>ASCII lower-casing, the part of \<^verbatim>\<open>str.lower\<close> that concerns the examples.\<close>

definition ascii_lower_char :: "char \<Rightarrow> char" where
  "ascii_lower_char c =
     (case map_of (zip ''ABCDEFGHIJKLMNOPQRSTUVWXYZ'' ''abcdefghijklmnopqrstuvwxyz'') c of
        Some d \<Rightarrow> d
      | None \<Rightarrow> c)"

text \<open>The examples run with ASCII lower-casing and the two-decimal format above. In
  this instance no text is read as a number or as a date, which is what pandas does
  with the texts of the examples; the examples print no number and no timestamp with
  \<^verbatim>\<open>str\<close>.\<close>

definition ascii_lib :: pylib where
  "ascii_lib =
     \<lparr>str_lower = map ascii_lower_char,
      num_parse = (\<lambda>c. None),
      date_parse = (\<lambda>c. None),
      cell_repr = (\<lambda>c. []),
      fmt_2f = fixed2\<rparr>"

section \<open>The structure detector assigns headers to canonical fields\<close>

lemma detect_step_cases:
  "detect_step L m col = m \<or>
   (\<exists>k \<in> canonical_fields. m k = None \<and> detect_step L m col = m(k \<mapsto> col))"
  unfolding detect_step_def canonical_fields_def Let_def by auto

lemma detect_step_dom:
  assumes "dom m \<subseteq> canonical_fields"
  shows "dom (detect_step L m col) \<subseteq> canonical_fields"
proof -
  from detect_step_cases [of L m col] show ?thesis
  proof
    assume "detect_step L m col = m" with assms show ?thesis by simp
  next
    assume "\<exists>k \<in> canonical_fields. m k = None \<and> detect_step L m col = m(k \<mapsto> col)"
    then obtain k where k: "k \<in> canonical_fields" "detect_step L m col = m(k \<mapsto> col)" by blast
    have "dom (m(k \<mapsto> col)) = insert k (dom m)" by simp
    with k assms show ?thesis by simp
  qed
qed

lemma detect_step_ran: "ran (detect_step L m col) \<subseteq> insert col (ran m)"
proof -
  from detect_step_cases [of L m col] show ?thesis
  proof
    assume "detect_step L m col = m" then show ?thesis by auto
  next
    assume "\<exists>k \<in> canonical_fields. m k = None \<and> detect_step L m col = m(k \<mapsto> col)"
    then obtain k where k: "m k = None" "detect_step L m col = m(k \<mapsto> col)" by blast
    then show ?thesis by (auto simp: ran_def)
  qed
qed

lemma map_upd_fresh_inj:
  assumes inj: "inj_on m (dom m)" and fresh: "col \<notin> ran m"
  shows "inj_on (m(k \<mapsto> col)) (dom (m(k \<mapsto> col)))"
proof (rule inj_onI)
  fix x y
  assume x: "x \<in> dom (m(k \<mapsto> col))" and y: "y \<in> dom (m(k \<mapsto> col))"
    and e: "(m(k \<mapsto> col)) x = (m(k \<mapsto> col)) y"
  show "x = y"
  proof (cases "x = k")
    case True
    show ?thesis
    proof (cases "y = k")
      case True with \<open>x = k\<close> show ?thesis by simp
    next
      case False
      with True e have "m y = Some col" by simp
      then have "col \<in> ran m" by (auto simp: ran_def)
      with fresh show ?thesis by simp
    qed
  next
    case False
    show ?thesis
    proof (cases "y = k")
      case True
      with False e have "m x = Some col" by simp
      then have "col \<in> ran m" by (auto simp: ran_def)
      with fresh show ?thesis by simp
    next
      case yk: False
      with False x y e have "x \<in> dom m" "y \<in> dom m" "m x = m y" by auto
      with inj show ?thesis by (auto dest: inj_onD)
    qed
  qed
qed

lemma detect_step_inj:
  assumes "inj_on m (dom m)" and "col \<notin> ran m"
  shows "inj_on (detect_step L m col) (dom (detect_step L m col))"
proof -
  from detect_step_cases [of L m col] show ?thesis
  proof
    assume "detect_step L m col = m" with assms show ?thesis by simp
  next
    assume "\<exists>k \<in> canonical_fields. m k = None \<and> detect_step L m col = m(k \<mapsto> col)"
    then obtain k where k: "detect_step L m col = m(k \<mapsto> col)" by blast
    show ?thesis unfolding k using assms by (rule map_upd_fresh_inj)
  qed
qed

lemma detect_fold_dom:
  "dom m \<subseteq> canonical_fields \<Longrightarrow> dom (foldl (detect_step L) m hs) \<subseteq> canonical_fields"
proof (induction hs arbitrary: m)
  case Nil then show ?case by simp
next
  case (Cons h hs)
  have "dom (detect_step L m h) \<subseteq> canonical_fields" using Cons.prems by (rule detect_step_dom)
  then show ?case using Cons.IH by simp
qed

lemma detect_fold_ran: "ran (foldl (detect_step L) m hs) \<subseteq> ran m \<union> set hs"
proof (induction hs arbitrary: m)
  case Nil then show ?case by simp
next
  case (Cons h hs)
  have "ran (foldl (detect_step L) (detect_step L m h) hs) \<subseteq> ran (detect_step L m h) \<union> set hs"
    by (rule Cons.IH)
  also have "\<dots> \<subseteq> ran m \<union> set (h # hs)" using detect_step_ran [of L m h] by auto
  finally show ?case by simp
qed

lemma detect_fold_inj:
  "inj_on m (dom m) \<Longrightarrow> ran m \<inter> set hs = {} \<Longrightarrow> distinct hs \<Longrightarrow>
   inj_on (foldl (detect_step L) m hs) (dom (foldl (detect_step L) m hs))"
proof (induction hs arbitrary: m)
  case Nil then show ?case by simp
next
  case (Cons h hs)
  have h: "h \<notin> ran m" using Cons.prems(2) by auto
  have 1: "inj_on (detect_step L m h) (dom (detect_step L m h))"
    using Cons.prems(1) h by (rule detect_step_inj)
  have 2: "ran (detect_step L m h) \<inter> set hs = {}"
    using detect_step_ran [of L m h] Cons.prems(2,3) by auto
  have 3: "distinct hs" using Cons.prems(3) by simp
  show ?case using Cons.IH [OF 1 2 3] by simp
qed

text \<open>
  Claim C3, as the code has it. For every list of headers and every library, each key
  of the detected mapping is one of the five canonical fields and each value is one
  of the headers. When the headers are pairwise different, no header is the value of
  two canonical fields. With a repeated header the last part can fail.
\<close>

theorem detect_excel_structure_mapping:
  "dom (detect_excel_structure L headers) \<subseteq> canonical_fields \<and>
   ran (detect_excel_structure L headers) \<subseteq> set headers \<and>
   (distinct headers \<longrightarrow>
      inj_on (detect_excel_structure L headers) (dom (detect_excel_structure L headers)))"
  unfolding detect_excel_structure_def
  using detect_fold_dom [of Map.empty L headers] detect_fold_ran [of L Map.empty headers]
    detect_fold_inj [of Map.empty headers L]
  by simp

text \<open>
  The theorem at the headers Date, Details, Credit, Debit, which are pairwise
  different.
\<close>

theorem detect_excel_structure_mapping_witness:
  "distinct [''Date'', ''Details'', ''Credit'', ''Debit''] \<and>
   dom (detect_excel_structure ascii_lib [''Date'', ''Details'', ''Credit'', ''Debit''])
     \<subseteq> canonical_fields \<and>
   ran (detect_excel_structure ascii_lib [''Date'', ''Details'', ''Credit'', ''Debit''])
     \<subseteq> set [''Date'', ''Details'', ''Credit'', ''Debit''] \<and>
   inj_on (detect_excel_structure ascii_lib [''Date'', ''Details'', ''Credit'', ''Debit''])
     (dom (detect_excel_structure ascii_lib [''Date'', ''Details'', ''Credit'', ''Debit'']))"
proof -
  have d: "distinct [''Date'', ''Details'', ''Credit'', ''Debit'']" by simp
  from detect_excel_structure_mapping [of ascii_lib "[''Date'', ''Details'', ''Credit'', ''Debit'']"] d
  show ?thesis by blast
qed

text \<open>
  Claim C3 as stated fails for a table with a repeated header: the header
  \<^verbatim>\<open>Credit Date\<close> contains a date keyword and an income keyword; its first
  occurrence becomes the Date column, and its second occurrence, Date being taken,
  becomes the Income column.
\<close>

theorem detect_excel_structure_duplicate_headers:
  "detect_excel_structure ascii_lib [''Credit Date'', ''Credit Date''] ''Date'' = Some ''Credit Date'' \<and>
   detect_excel_structure ascii_lib [''Credit Date'', ''Credit Date''] ''Income'' = Some ''Credit Date''"
  by code_simp

section \<open>The classifier always returns a label\<close>





text \<open>The two rows of the scenario of the specification: a salary payment with an
  income is labelled with the category of salaries, an office rent with expenses
  with the category of administrative expenses.\<close>

lemma classify_transactions_examples:
  "(classify_transactions ascii_lib
      \<lparr>s_description = Some (Text ''Salary payment''), s_income = Some 5000, s_expenses = Some 0\<rparr>,
    classify_transactions ascii_lib
      \<lparr>s_description = Some (Text ''Office rent''), s_income = Some 0, s_expenses = Some 1200\<rparr>)
   = (fst (category_keywords ! 0), fst (category_keywords ! 5))"
  by code_simp



section \<open>The records of the normalizer\<close>


lemma assemble_zip:
  "length ds = n \<Longrightarrow> length ts = n \<Longrightarrow> length is = n \<Longrightarrow> length es = n \<Longrightarrow> length cs = n \<Longrightarrow>
   length (assemble ds ts is es cs) = n \<and>
   map (\<lambda>r. (Date r, Category r)) (assemble ds ts is es cs) = zip ds cs"
proof (induction n arbitrary: ds ts "is" es cs)
  case 0 then show ?case by simp
next
  case (Suc n)
  then obtain d ds' t ts' i is' e es' c cs' where
    "ds = d # ds'" "ts = t # ts'" "is = i # is'" "es = e # es'" "cs = c # cs'"
    "length ds' = n" "length ts' = n" "length is' = n" "length es' = n" "length cs' = n"
    by (auto simp: length_Suc_conv)
  with Suc.IH [of ds' ts' is' es' cs'] show ?case by simp
qed

lemma column_length: "column df c = Inr col \<Longrightarrow> length col = length (raw_rows df)"
  by (auto simp: column_def split: if_splits)

lemma date_column_length:
  "date_column L now df m = Inr ds \<Longrightarrow> length ds = length (raw_rows df)"
  by (auto simp: date_column_def date_range_def dest: column_length split: option.splits sum.splits)

lemma description_column_length:
  "description_column df m = Inr ts \<Longrightarrow> length ts = length (raw_rows df)"
  by (auto simp: description_column_def dest: column_length split: option.splits)

lemma income_column_length:
  "income_column L df m = Inr xs \<Longrightarrow> length xs = length (raw_rows df)"
  by (auto simp: income_column_def dest: column_length split: option.splits sum.splits)

lemma expenses_column_length:
  "expenses_column L df m = Inr xs \<Longrightarrow> length xs = length (raw_rows df)"
  by (auto simp: expenses_column_def dest: column_length split: option.splits sum.splits)

lemma classify_rows_length:
  "length ds = n \<Longrightarrow> length is = n \<Longrightarrow> length es = n \<Longrightarrow> length (classify_rows L ds is es) = n"
proof (induction n arbitrary: ds "is" es)
  case 0 then show ?case by simp
next
  case (Suc n)
  then obtain d ds' i is' e es' where
    "ds = d # ds'" "is = i # is'" "es = e # es'" "length ds' = n" "length is' = n" "length es' = n"
    by (auto simp: length_Suc_conv)
  with Suc.IH [of ds' is' es'] show ?case by simp
qed

lemma category_column_length:
  "category_column L df m ts is es = Inr cs \<Longrightarrow> length ts = length (raw_rows df) \<Longrightarrow>
   length is = length (raw_rows df) \<Longrightarrow> length es = length (raw_rows df) \<Longrightarrow>
   length cs = length (raw_rows df)"
  by (auto simp: category_column_def classify_rows_length dest: column_length
      split: option.splits sum.splits)





lemma analyze_excel_data_Inr:
  assumes "analyze_excel_data L now df m = Inr out"
  obtains ds ts "is" es cs where
    "date_column L now df m = Inr ds" "description_column df m = Inr ts"
    "income_column L df m = Inr is" "expenses_column L df m = Inr es"
    "category_column L df m ts is es = Inr cs"
    "out = \<lparr>columns = processed_columns,
            rows = filter (\<lambda>r. \<not> isna (Date r)) (assemble ds ts is es cs)\<rparr>"
  using assms unfolding analyze_excel_data_def by (auto split: sum.splits)

lemma to_datetime_cases: "to_datetime L v = NaT \<or> (\<exists>t. to_datetime L v = Stamp t)"
  by (cases v) (auto split: option.splits)

lemma isna_to_datetime: "isna (to_datetime L v) \<longleftrightarrow> to_datetime L v = NaT"
  using to_datetime_cases [of L v] by auto


lemma analyze_excel_data_columns:
  assumes "analyze_excel_data L now df m = Inr out"
  obtains ds ts "is" es cs where
    "date_column L now df m = Inr ds" "description_column df m = Inr ts"
    "income_column L df m = Inr is" "expenses_column L df m = Inr es"
    "category_column L df m ts is es = Inr cs"
    "rows out = filter (\<lambda>r. \<not> isna (Date r)) (assemble ds ts is es cs)"
    "length (assemble ds ts is es cs) = length (raw_rows df)"
    "map (\<lambda>r. (Date r, Category r)) (assemble ds ts is es cs) = zip ds cs"
    "length ds = length (raw_rows df)" "length cs = length (raw_rows df)"
proof -
  from assms obtain ds ts "is" es cs where
    c: "date_column L now df m = Inr ds" "description_column df m = Inr ts"
    "income_column L df m = Inr is" "expenses_column L df m = Inr es"
    "category_column L df m ts is es = Inr cs"
    and out: "out = \<lparr>columns = processed_columns,
            rows = filter (\<lambda>r. \<not> isna (Date r)) (assemble ds ts is es cs)\<rparr>"
    by (rule analyze_excel_data_Inr)
  let ?n = "length (raw_rows df)"
  have l: "length ds = ?n" "length ts = ?n" "length is = ?n" "length es = ?n"
    using c by (auto dest: date_column_length description_column_length income_column_length
        expenses_column_length)
  have lc: "length cs = ?n" using c(5) l(2,3,4) by (rule category_column_length)
  from assemble_zip [OF l lc] out c l lc that show ?thesis by simp
qed



lemma clean_category_eq:
  "clean_category L v =
     (if py_str L v = [] \<or> py_str L v = ''nan'' then uncategorized else py_str L v)"
  by (simp add: clean_category_def Let_def uncategorized_def)







text \<open>
  Claim C10. With a mapped Category column, the category of every surviving record is
  the text of its cell after \<^verbatim>\<open>astype(str)\<close>, except that the empty string and
  the string \<^verbatim>\<open>nan\<close> become the label for uncategorized rows. A cell holding
  Python's \<^verbatim>\<open>None\<close> becomes the category \<^verbatim>\<open>None\<close>.
\<close>

theorem analyze_excel_data_category_cleanup:
  assumes "mapped column_mapping ''Category'' = Some c"
    and "analyze_excel_data L now df column_mapping = Inr out"
  shows "\<exists>dates col. date_column L now df column_mapping = Inr dates \<and> column df c = Inr col \<and>
           map Category (rows out)
             = map (\<lambda>(d, v). clean_category L v) (filter (\<lambda>(d, v). \<not> isna d) (zip dates col)) \<and>
           (\<forall>v. clean_category L v =
                  (if py_str L v = [] \<or> py_str L v = ''nan'' then uncategorized else py_str L v)) \<and>
           clean_category L PyNone = ''None''"
proof -
  from assms(2) obtain ds ts "is" es cs where
    d: "date_column L now df column_mapping = Inr ds"
    and cc: "category_column L df column_mapping ts is es = Inr cs"
    and r: "rows out = filter (\<lambda>r. \<not> isna (Date r)) (assemble ds ts is es cs)"
    and z: "map (\<lambda>r. (Date r, Category r)) (assemble ds ts is es cs) = zip ds cs"
    by (rule analyze_excel_data_columns)
  from cc assms(1) obtain col where col: "column df c = Inr col" "cs = map (clean_category L) col"
    by (auto simp: category_column_def split: sum.splits)
  let ?xs = "assemble ds ts is es cs"
  have "map Category (rows out)
      = map snd (filter (\<lambda>(d, c). \<not> isna d) (map (\<lambda>r. (Date r, Category r)) ?xs))"
    unfolding r by (simp add: filter_map comp_def)
  also have "\<dots> = map snd (filter (\<lambda>(d, c). \<not> isna d) (zip ds (map (clean_category L) col)))"
    using z col(2) by simp
  also have "\<dots> = map (\<lambda>(d, v). clean_category L v) (filter (\<lambda>(d, v). \<not> isna d) (zip ds col))"
    by (simp add: zip_map2 filter_map comp_def case_prod_unfold)
  finally have 1: "map Category (rows out)
      = map (\<lambda>(d, v). clean_category L v) (filter (\<lambda>(d, v). \<not> isna d) (zip ds col))" .
  have 2: "clean_category L PyNone = ''None''" by (simp add: clean_category_eq)
  from d col(1) 1 2 clean_category_eq show ?thesis by blast
qed

text \<open>
  The theorem at a table whose Category cells are a text, \<^verbatim>\<open>None\<close> and NaN.
\<close>

theorem analyze_excel_data_category_cleanup_witness:
  "mapped [''Date'' \<mapsto> Some ''Day'', ''Category'' \<mapsto> Some ''Type''] ''Category'' = Some ''Type'' \<and>
   (\<exists>out. analyze_excel_data ascii_lib \<lparr>ts_year = 2024, ts_month = 3, ts_day = 1, ts_time = 0\<rparr>
       \<lparr>raw_columns = [''Day'', ''Type''],
        raw_rows =
          [ [''Day'' \<mapsto> Stamp \<lparr>ts_year = 2024, ts_month = 1, ts_day = 15, ts_time = 0\<rparr>,
            ''Type'' \<mapsto> Text ''Sales''],
           [''Day'' \<mapsto> Stamp \<lparr>ts_year = 2024, ts_month = 1, ts_day = 16, ts_time = 0\<rparr>,
            ''Type'' \<mapsto> PyNone],
           [''Day'' \<mapsto> Stamp \<lparr>ts_year = 2024, ts_month = 1, ts_day = 17, ts_time = 0\<rparr>,
            ''Type'' \<mapsto> NaN] ]\<rparr>
       [''Date'' \<mapsto> Some ''Day'', ''Category'' \<mapsto> Some ''Type''] = Inr out \<and>
     map Category (rows out) = [''Sales'', ''None'', uncategorized])"
proof -
  let ?now = "\<lparr>ts_year = 2024, ts_month = 3, ts_day = 1, ts_time = 0\<rparr>"
  let ?d1 = "\<lparr>ts_year = 2024, ts_month = 1, ts_day = 15, ts_time = 0\<rparr>"
  let ?d2 = "\<lparr>ts_year = 2024, ts_month = 1, ts_day = 16, ts_time = 0\<rparr>"
  let ?d3 = "\<lparr>ts_year = 2024, ts_month = 1, ts_day = 17, ts_time = 0\<rparr>"
  let ?df = "\<lparr>raw_columns = [''Day'', ''Type''],
      raw_rows = [ [''Day'' \<mapsto> Stamp ?d1, ''Type'' \<mapsto> Text ''Sales''],
                  [''Day'' \<mapsto> Stamp ?d2, ''Type'' \<mapsto> PyNone],
                  [''Day'' \<mapsto> Stamp ?d3, ''Type'' \<mapsto> NaN] ]\<rparr>"
  let ?m = "[''Date'' \<mapsto> Some ''Day'', ''Category'' \<mapsto> Some ''Type'']"
  have mp: "mapped ?m ''Category'' = Some ''Type''" by (simp add: mapped_def)
  have "\<exists>out. analyze_excel_data ascii_lib ?now ?df ?m = Inr out"
    by (simp add: analyze_excel_data_def date_column_def description_column_def
        income_column_def expenses_column_def category_column_def mapped_def column_def)
  then obtain out where run: "analyze_excel_data ascii_lib ?now ?df ?m = Inr out" ..
  from analyze_excel_data_category_cleanup [OF mp run]
  obtain dates col where a: "date_column ascii_lib ?now ?df ?m = Inr dates"
    "column ?df ''Type'' = Inr col"
    "map Category (rows out)
       = map (\<lambda>(d, v). clean_category ascii_lib v) (filter (\<lambda>(d, v). \<not> isna d) (zip dates col))"
    by blast
  from a(1) have d: "dates = [Stamp ?d1, Stamp ?d2, Stamp ?d3]"
    by (simp add: date_column_def mapped_def column_def)
  from a(2) have c: "col = [Text ''Sales'', PyNone, NaN]" by (simp add: column_def)
  have cats: "map Category (rows out) = [''Sales'', ''None'', uncategorized]"
    unfolding a(3) d c by (simp add: clean_category_def uncategorized_def)
  have ex: "\<exists>out. analyze_excel_data ascii_lib ?now ?df ?m = Inr out \<and>
      map Category (rows out) = [''Sales'', ''None'', uncategorized]"
  proof (intro exI conjI)
    show "analyze_excel_data ascii_lib ?now ?df ?m = Inr out" by (rule run)
    show "map Category (rows out) = [''Sales'', ''None'', uncategorized]" by (rule cats)
  qed
  from mp ex show ?thesis by (rule conjI)
qed

section \<open>The aggregator\<close>








text \<open>
  Claim C6. For no table and for an empty table the aggregator returns the fixed
  result for no data: its summary text, no category aggregates, one insight and one
  recommendation.
\<close>

theorem generate_ai_insights_no_data:
  "(data = None \<or> (\<exists>d. data = Some d \<and> frame_empty d)
      \<longrightarrow> generate_ai_insights L data = Inr no_data_analysis) \<and>
   summary no_data_analysis = no_data_summary \<and> no_data_summary \<noteq> [] \<and>
   category_analysis no_data_analysis = Map.empty \<and>
   length (insights no_data_analysis) = 1 \<and>
   length (recommendations no_data_analysis) = 1"
  by (auto simp: generate_ai_insights_def no_data_analysis_def no_data_summary_def)

text \<open>The theorem at a table with the canonical columns and no row.\<close>

theorem generate_ai_insights_no_data_witness:
  "frame_empty \<lparr>columns = processed_columns, rows = []\<rparr> \<and>
   generate_ai_insights ascii_lib (Some \<lparr>columns = processed_columns, rows = []\<rparr>)
     = Inr no_data_analysis \<and>
   generate_ai_insights ascii_lib None = Inr no_data_analysis"
proof -
  have e: "frame_empty \<lparr>columns = processed_columns, rows = []\<rparr>" by (simp add: frame_empty_def)
  from generate_ai_insights_no_data [of "Some \<lparr>columns = processed_columns, rows = []\<rparr>" ascii_lib]
    generate_ai_insights_no_data [of None ascii_lib] e
  show ?thesis by simp
qed




section \<open>The predictor\<close>












lemma to_datetime_not_Text: "to_datetime L c \<noteq> Text s"
  by (cases c) (auto split: option.splits)


lemma history_months_set:
  "set (history_months rs) = {m. \<exists>r \<in> set rs. cell_month (Date r) = Some m}"
  unfolding history_months_def
  by (induction rs) (auto split: option.splits)

lemma cell_month_Some: "\<not> isna c \<Longrightarrow> (\<exists>t. c = Stamp t) \<Longrightarrow> \<exists>m. cell_month c = Some m"
  by auto






lemma sum_list_single_bucket:
  "distinct bs \<Longrightarrow>
   sum_list (map (\<lambda>b. if m = Some b then (x::real) else 0) bs) = (if \<exists>b \<in> set bs. m = Some b then x else 0)"
  by (induction bs) auto

lemma bucket_totals_sum:
  assumes "distinct bs"
  shows "sum_list (map (bucket_total col rs) bs)
       = sum_list (map col (filter (\<lambda>r. \<exists>b \<in> set bs. cell_month (Date r) = Some b) rs))"
proof (induction rs)
  case Nil
  show ?case by (simp add: bucket_total_def)
next
  case (Cons r rs)
  have "sum_list (map (bucket_total col (r # rs)) bs)
      = sum_list (map (\<lambda>b. (if cell_month (Date r) = Some b then col r else 0) + bucket_total col rs b) bs)"
    by (rule arg_cong [where f = sum_list]) (simp add: bucket_total_def)
  also have "\<dots> = sum_list (map (\<lambda>b. if cell_month (Date r) = Some b then col r else 0) bs)
      + sum_list (map (bucket_total col rs) bs)"
    by (simp add: sum_list_addf)
  also have "\<dots> = (if \<exists>b \<in> set bs. cell_month (Date r) = Some b then col r else 0)
      + sum_list (map (bucket_total col rs) bs)"
    by (simp only: sum_list_single_bucket [OF assms])
  finally show ?case using Cons.IH by simp
qed

lemma fold_min_Min: "fold min ms (m::int) = Min (set (m # ms))"
  by (rule Min.set_eq_fold [symmetric])

lemma fold_max_Max: "fold max ms (m::int) = Max (set (m # ms))"
  by (rule Max.set_eq_fold [symmetric])

lemma month_buckets_span:
  "history_months rs \<noteq> [] \<Longrightarrow>
   month_buckets rs = [Min (set (history_months rs)) .. Max (set (history_months rs))]"
  by (cases "history_months rs") (simp_all add: month_buckets_def fold_min_Min fold_max_Max)

text \<open>The mean of the monthly buckets: the total of the dated rows over the number of
  calendar months from the earliest to the latest one.\<close>

lemma monthly_mean_span:
  assumes "history_months rs \<noteq> []"
  shows "monthly_mean col rs
       = sum_list (map col (filter (\<lambda>r. cell_month (Date r) \<noteq> None) rs))
         / real_of_int (Max (set (history_months rs)) - Min (set (history_months rs)) + 1)"
proof -
  let ?lo = "Min (set (history_months rs))" and ?hi = "Max (set (history_months rs))"
  have fin: "finite (set (history_months rs))" "set (history_months rs) \<noteq> {}"
    using assms by simp_all
  have b: "month_buckets rs = [?lo..?hi]" using assms by (rule month_buckets_span)
  have le: "?lo \<le> ?hi" using fin by simp
  have in_span: "(\<exists>b \<in> set [?lo..?hi]. cell_month (Date r) = Some b) \<longleftrightarrow> cell_month (Date r) \<noteq> None"
    if "r \<in> set rs" for r
  proof (cases "cell_month (Date r)")
    case None then show ?thesis by simp
  next
    case (Some m)
    with that have "m \<in> set (history_months rs)" unfolding history_months_set by blast
    then have "?lo \<le> m" "m \<le> ?hi" using fin by simp_all
    with Some show ?thesis by simp
  qed
  have "sum_list (map (bucket_total col rs) [?lo..?hi])
      = sum_list (map col (filter (\<lambda>r. \<exists>b \<in> set [?lo..?hi]. cell_month (Date r) = Some b) rs))"
    by (rule bucket_totals_sum) simp
  also have "filter (\<lambda>r. \<exists>b \<in> set [?lo..?hi]. cell_month (Date r) = Some b) rs
      = filter (\<lambda>r. cell_month (Date r) \<noteq> None) rs"
    by (rule filter_cong) (simp_all only: in_span)
  finally have s: "sum_list (map (bucket_total col rs) [?lo..?hi])
      = sum_list (map col (filter (\<lambda>r. cell_month (Date r) \<noteq> None) rs))" .
  have l: "real (length [?lo..?hi]) = real_of_int (?hi - ?lo + 1)" using le by simp
  show ?thesis unfolding monthly_mean_def b s l ..
qed



text \<open>
  Claim C9 fails for the predictor. It assigns the coerced dates to the Date column of
  the table it was given: a table whose Date column holds the text 2024-01-15 holds a
  timestamp or NaT there after the call, whatever the library makes of the text. The
  normalizer works on a copy of its input, and the aggregator assigns nothing.
\<close>

theorem generate_financial_predictions_overwrites_dates:
  "snd (generate_financial_predictions L now
          (Some \<lparr>columns = processed_columns,
             rows = [\<lparr>Date = Text ''2024-01-15'', Description = Text ''Salary payment'',
                      Income = 5000, Expenses = 0, Category = ''Salaries'', Net = 5000\<rparr>]\<rparr>) 3)
     = Some \<lparr>columns = processed_columns,
          rows = [\<lparr>Date = to_datetime L (Text ''2024-01-15''),
                   Description = Text ''Salary payment'',
                   Income = 5000, Expenses = 0, Category = ''Salaries'', Net = 5000\<rparr>]\<rparr> \<and>
   to_datetime L (Text ''2024-01-15'') \<noteq> Text ''2024-01-15''"
proof -
  have 1: "to_datetime L (Text ''2024-01-15'') \<noteq> Text ''2024-01-15''"
    by (rule to_datetime_not_Text)
  have 2: "snd (generate_financial_predictions L now
          (Some \<lparr>columns = processed_columns,
             rows = [\<lparr>Date = Text ''2024-01-15'', Description = Text ''Salary payment'',
                      Income = 5000, Expenses = 0, Category = ''Salaries'', Net = 5000\<rparr>]\<rparr>) 3)
     = Some \<lparr>columns = processed_columns,
          rows = [\<lparr>Date = to_datetime L (Text ''2024-01-15''),
                   Description = Text ''Salary payment'',
                   Income = 5000, Expenses = 0, Category = ''Salaries'', Net = 5000\<rparr>]\<rparr>"
    by (simp add: generate_financial_predictions_def Let_def frame_empty_def
        processed_columns_def coerce_dates_def del: to_datetime.simps)
  from 2 1 show ?thesis by (rule conjI)
qed





end
